theory Spec2Isabelle
  imports Main
begin

section \<open>The JavaScript runtime that BaseScriptLoader runs on\<close>

text \<open>
  \<^verbatim>\<open>src/src/BaseScriptLoader.ts\<close> is an abstract class whose methods read and write the
  file system, the module cache of \<^verbatim>\<open>require\<close> and a logger. The embedding threads all of
  that through an explicit state; every \<^verbatim>\<open>throw\<close> and every rejected promise is a value.
  This section fixes the part of the runtime the class calls: errors, \<^verbatim>\<open>Date\<close>,
  \<^verbatim>\<open>String.prototype.trim\<close>, \<^verbatim>\<open>parseInt\<close>, \<^verbatim>\<open>Number.prototype.toString\<close>, the \<^verbatim>\<open>fs\<close>
  calls and the values a loaded module can export.
\<close>

type_synonym path = string

datatype error =
    SysError string path   \<comment> \<open>a Node system error: its code and the path it is about\<close>
  | RangeError string
  | TypeError string
  | PlainError string      \<comment> \<open>\<^verbatim>\<open>new Error(message)\<close>\<close>
  | Rejected string        \<comment> \<open>whatever the host's data source or a script throws\<close>

subsection \<open>Date\<close>

text \<open>
  A \<^verbatim>\<open>Date\<close> holds a time value: an integral number of milliseconds of magnitude at most
  8.64e15, or NaN (an invalid date). \<^verbatim>\<open>None\<close> is the invalid date.
\<close>

type_synonym date = "int option"

definition maxTime :: int where
  "maxTime = 8640000000000000"

definition new_Date :: "int \<Rightarrow> date" where
  "new_Date n = (if - maxTime \<le> n \<and> n \<le> maxTime then Some n else None)"

text \<open>
  \<^verbatim>\<open>toISOString\<close> throws a RangeError on an invalid date. The text it returns is only ever
  logged, so the time value stands for it.
\<close>

definition toISOString :: "date \<Rightarrow> error + int" where
  "toISOString d = (case d of None \<Rightarrow> Inl (RangeError ''Invalid time value'') | Some n \<Rightarrow> Inr n)"

text \<open>JavaScript's \<^verbatim>\<open>a <= b\<close> on two dates: false as soon as one of them is invalid.\<close>

definition date_le :: "date \<Rightarrow> date \<Rightarrow> bool" where
  "date_le a b =
     (case a of None \<Rightarrow> False
      | Some x \<Rightarrow> (case b of None \<Rightarrow> False | Some y \<Rightarrow> x \<le> y))"

subsection \<open>Strings and numbers\<close>

text \<open>
  A JavaScript string is a sequence of 16-bit code units. The content of a file, as
  \<^verbatim>\<open>readFileSync(..., 'utf8')\<close> hands it over, and the text of a script are such sequences;
  a code unit is a natural number. Paths, keys and messages are only compared and
  concatenated, and stay \<^typ>\<open>string\<close>s. \<open>units\<close> spells a Latin-1 literal as code units.
\<close>

type_synonym ustring = "nat list"

definition units :: "string \<Rightarrow> ustring" where
  "units s = map of_char s"

text \<open>
  The white space that \<^verbatim>\<open>trim\<close> and \<^verbatim>\<open>parseInt\<close> strip (WhiteSpace and LineTerminator of
  ECMAScript): TAB, LF, VT, FF, CR, SP, NBSP, U+1680, U+2000 to U+200A, U+2028, U+2029,
  U+202F, U+205F, U+3000 and U+FEFF.
\<close>

definition is_white :: "nat \<Rightarrow> bool" where
  "is_white n =
     (n = 9 \<or> n = 10 \<or> n = 11 \<or> n = 12 \<or> n = 13 \<or> n = 32 \<or> n = 160 \<or> n = 5760
      \<or> (8192 \<le> n \<and> n \<le> 8202) \<or> n = 8232 \<or> n = 8233 \<or> n = 8239 \<or> n = 8287
      \<or> n = 12288 \<or> n = 65279)"

definition trim :: "ustring \<Rightarrow> ustring" where
  "trim s = rev (dropWhile is_white (rev (dropWhile is_white s)))"

definition digit_value :: "nat \<Rightarrow> nat option" where
  "digit_value n =
     (if 48 \<le> n \<and> n \<le> 57 then Some (n - 48)
      else if 97 \<le> n \<and> n \<le> 122 then Some (n - 87)
      else if 65 \<le> n \<and> n \<le> 90 then Some (n - 55)
      else None)"

definition is_radix_digit :: "nat \<Rightarrow> nat \<Rightarrow> bool" where
  "is_radix_digit R c = (case digit_value c of None \<Rightarrow> False | Some d \<Rightarrow> d < R)"

definition digit_nat :: "nat \<Rightarrow> nat" where
  "digit_nat c = (case digit_value c of None \<Rightarrow> 0 | Some d \<Rightarrow> d)"

text \<open>The prefix \<^verbatim>\<open>0x\<close> or \<^verbatim>\<open>0X\<close>: code unit 48, then 120 or 88.\<close>

definition hex_prefix :: "ustring \<Rightarrow> bool" where
  "hex_prefix S =
     (case S of
        c1 # c2 # _ \<Rightarrow> c1 = 48 \<and> (c2 = 120 \<or> c2 = 88)
      | _ \<Rightarrow> False)"

text \<open>
  \<^verbatim>\<open>parseInt(string)\<close> with no radix (ECMAScript 19.2.5): skip leading white space, take
  an optional sign (\<^verbatim>\<open>-\<close> is 45, \<^verbatim>\<open>+\<close> is 43), switch to radix 16 after \<^verbatim>\<open>0x\<close> or \<^verbatim>\<open>0X\<close>,
  read the longest prefix of digits of the radix, and answer NaN (\<^verbatim>\<open>None\<close>) when that
  prefix is empty. What follows the digits is ignored. The result is the mathematical
  integer; the rounding to a double only affects values above 2^53, all of which lie beyond
  \<^const>\<open>maxTime\<close>.
\<close>

definition parseInt :: "ustring \<Rightarrow> int option" where
  "parseInt inputString =
     (let S = dropWhile is_white inputString;
          sign = (case S of c # _ \<Rightarrow> if c = 45 then - 1 else (1::int) | [] \<Rightarrow> 1);
          S1 = (case S of c # r \<Rightarrow> if c = 45 \<or> c = 43 then r else S | [] \<Rightarrow> S);
          R = (if hex_prefix S1 then 16 else (10::nat));
          S2 = (if hex_prefix S1 then drop 2 S1 else S1);
          Z = takeWhile (is_radix_digit R) S2
      in if Z = [] then None
         else Some (sign * int (foldl (\<lambda>a c. a * R + digit_nat c) 0 Z)))"

text \<open>
  \<^verbatim>\<open>Number.prototype.toString\<close> on a time value: plain decimal digits, since an integer
  below 1e21 is never printed with an exponent; NaN prints as \<^verbatim>\<open>NaN\<close>.
\<close>

fun digits :: "nat \<Rightarrow> ustring" where
  "digits n = (if n < 10 then [48 + n] else digits (n div 10) @ [48 + n mod 10])"

declare digits.simps [simp del]

definition number_toString :: "int \<Rightarrow> ustring" where
  "number_toString n = (if n < 0 then 45 # digits (nat (- n)) else digits (nat n))"

definition getTime_toString :: "date \<Rightarrow> ustring" where
  "getTime_toString d = (case d of None \<Rightarrow> units ''NaN'' | Some n \<Rightarrow> number_toString n)"

text \<open>
  The words of the specification about the persisted anchor (section 6: a decimal integer
  string; anything non-numeric or non-positive counts as absent), independent of how the
  code parses. A decimal integer string is a non-empty run of the digits \<^verbatim>\<open>0\<close> to \<^verbatim>\<open>9\<close>,
  and its value is read in base ten. A string begins with an integer when it starts with
  a digit, or with a sign followed by a digit.
\<close>

definition dec_digit :: "nat \<Rightarrow> bool" where
  "dec_digit c = (48 \<le> c \<and> c \<le> 57)"

definition decimal_string :: "ustring \<Rightarrow> bool" where
  "decimal_string s = (s \<noteq> [] \<and> list_all dec_digit s)"

definition decimal_value :: "ustring \<Rightarrow> int" where
  "decimal_value s = int (foldl (\<lambda>a c. a * 10 + (c - 48)) 0 s)"

definition begins_with_integer :: "ustring \<Rightarrow> bool" where
  "begins_with_integer s =
     (case s of
        [] \<Rightarrow> False
      | c # r \<Rightarrow>
          dec_digit c
          \<or> ((c = 45 \<or> c = 43) \<and> (case r of [] \<Rightarrow> False | c2 # _ \<Rightarrow> dec_digit c2)))"

subsection \<open>The file system\<close>

text \<open>
  A path holds a regular file, a directory, or nothing. The operating system can refuse a
  call for reasons the program does not control. \<open>unsearchable\<close> is the set of paths it
  will not even look up (a directory on the way that may not be searched, an I/O error):
  there every call fails, the existence tests included. \<open>refused\<close> is the set of paths
  that can be looked up but not read, written or unlinked (permissions on the file or on
  its directory, a read-only mount). \<open>journal\<close> records every mutating call the program
  makes, whether it succeeds or not, so that "nothing was written" can be told from "the
  same bytes were written again".
\<close>

datatype node = File ustring | Dir

datatype fs_call = WriteFile path ustring | Unlink path

record filesystem =
  nodes :: "path \<rightharpoonup> node"
  refused :: "path set"
  unsearchable :: "path set"
  journal :: "fs_call list"

text \<open>The paths at which a read, a write or an unlink is refused.\<close>

definition denied :: "filesystem \<Rightarrow> path set" where
  "denied d = refused d \<union> unsearchable d"

text \<open>\<^verbatim>\<open>fs.existsSync\<close> answers false on any error, not only when nothing is there.\<close>

definition existsSync :: "filesystem \<Rightarrow> path \<Rightarrow> bool" where
  "existsSync d p = (p \<notin> unsearchable d \<and> nodes d p \<noteq> None)"

definition readFileSync :: "filesystem \<Rightarrow> path \<Rightarrow> error + ustring" where
  "readFileSync d p =
     (if p \<in> denied d then Inl (SysError ''EACCES'' p)
      else case nodes d p of
             None \<Rightarrow> Inl (SysError ''ENOENT'' p)
           | Some Dir \<Rightarrow> Inl (SysError ''EISDIR'' p)
           | Some (File text) \<Rightarrow> Inr text)"

text \<open>
  \<^verbatim>\<open>fs.writeFileSync\<close> and \<^verbatim>\<open>fs.writeFile\<close>: the file's content is replaced as a whole.
  The first component is the error thrown (or passed to the callback), if any.
\<close>

definition writeFile :: "filesystem \<Rightarrow> path \<Rightarrow> ustring \<Rightarrow> error option \<times> filesystem" where
  "writeFile d p text =
     (let d1 = d\<lparr>journal := journal d @ [WriteFile p text]\<rparr>
      in if p \<in> denied d then (Some (SysError ''EACCES'' p), d1)
         else case nodes d p of
                Some Dir \<Rightarrow> (Some (SysError ''EISDIR'' p), d1)
              | _ \<Rightarrow> (None, d1\<lparr>nodes := (nodes d)(p \<mapsto> File text)\<rparr>))"

text \<open>
  The test of line 239, \<^verbatim>\<open>fs.promises.access(p).then(() => true).catch(() => false)\<close>:
  true when the call resolves, false on every rejection, whether nothing is at the path or
  the system will not look it up.
\<close>

definition access :: "filesystem \<Rightarrow> path \<Rightarrow> bool" where
  "access d p = (p \<notin> unsearchable d \<and> nodes d p \<noteq> None)"

definition unlink :: "filesystem \<Rightarrow> path \<Rightarrow> error option \<times> filesystem" where
  "unlink d p =
     (let d1 = d\<lparr>journal := journal d @ [Unlink p]\<rparr>
      in if p \<in> denied d then (Some (SysError ''EACCES'' p), d1)
         else case nodes d p of
                None \<Rightarrow> (Some (SysError ''ENOENT'' p), d1)
              | Some Dir \<Rightarrow> (Some (SysError ''EISDIR'' p), d1)
              | Some (File _) \<Rightarrow> (None, d1\<lparr>nodes := (nodes d)(p := None)\<rparr>))"

subsection \<open>What a module exports\<close>

text \<open>
  The loader looks at a loaded module in three ways only: whether a value is truthy,
  whether \<^verbatim>\<open>typeof\<close> says \<^verbatim>\<open>function\<close>, and what \<^verbatim>\<open>new\<close> on it does. A function carries
  the outcome of \<^verbatim>\<open>new F()\<close>: an instance or what it throws.
\<close>

datatype 'i jsvalue =
    Nullish                  \<comment> \<open>\<^verbatim>\<open>undefined\<close> or \<^verbatim>\<open>null\<close>\<close>
  | Primitive bool           \<comment> \<open>any other primitive, with its truthiness\<close>
  | Object                   \<comment> \<open>an object that is not callable\<close>
  | Function "error + 'i"

fun truthy :: "'i jsvalue \<Rightarrow> bool" where
  "truthy Nullish = False"
| "truthy (Primitive b) = b"
| "truthy Object = True"
| "truthy (Function _) = True"

record 'i module_exports =
  exports_value :: "'i jsvalue"   \<comment> \<open>\<^verbatim>\<open>module.exports\<close> itself\<close>
  default_prop :: "'i jsvalue"    \<comment> \<open>its property \<^verbatim>\<open>default\<close>\<close>

text \<open>
  \<^verbatim>\<open>moduleExports.default || moduleExports\<close>: reading a property of \<^verbatim>\<open>undefined\<close> or
  \<^verbatim>\<open>null\<close> throws a TypeError.
\<close>

definition default_or_self :: "'i module_exports \<Rightarrow> error + 'i jsvalue" where
  "default_or_self m =
     (case exports_value m of
        Nullish \<Rightarrow> Inl (TypeError ''Cannot read properties of undefined'')
      | _ \<Rightarrow> Inr (if truthy (default_prop m) then default_prop m else exports_value m))"

section \<open>The loader\<close>

subsection \<open>State\<close>

text \<open>
  \<^verbatim>\<open>ScriptInstance<T, K>\<close> (lines 5-8): \<open>'k\<close> is the record type \<^verbatim>\<open>K\<close> the data source
  delivers, \<open>'i\<close> the instance type \<^verbatim>\<open>T\<close>. The source's field \<^verbatim>\<open>instance\<close> is \<open>inst\<close> here.
\<close>

record ('k, 'i) ScriptInstance =
  metaData :: 'k
  inst :: 'i

datatype level = DEBUG | INFO | WARN | ERROR | LOG

text \<open>One constructor for each message the class logs, with the values it interpolates.\<close>

datatype message =
    TimestampLoaded int              \<comment> \<open>line 44\<close>
  | TimestampInvalid ustring         \<comment> \<open>line 47\<close>
  | TimestampReadFailed error        \<comment> \<open>line 51\<close>
  | TimestampDefault                 \<comment> \<open>line 53\<close>
  | TimestampSaved int               \<comment> \<open>line 64\<close>
  | TimestampSaveFailed error        \<comment> \<open>line 66\<close>
  | LoadingInProgress                \<comment> \<open>line 101\<close>
  | LoadLatestFailed error           \<comment> \<open>line 117\<close>
  | ScriptFileWritten bool path      \<comment> \<open>line 198: created (\<open>True\<close>) or updated\<close>
  | ScriptLoadFailed path error      \<comment> \<open>line 213\<close>
  | ScriptFileDeleted path           \<comment> \<open>line 241\<close>
  | ScriptFileNotFound path          \<comment> \<open>line 243\<close>
  | RequireCacheCleared path         \<comment> \<open>line 247\<close>
  | ManualCheck                      \<comment> \<open>line 306\<close>

text \<open>
  The fields of the class (lines 13-20), followed by the world it acts on: the disk, the
  module cache \<^verbatim>\<open>require.cache\<close> and what the logger has received. The timer handle
  \<^verbatim>\<open>watchInterval\<close> and \<^verbatim>\<open>pollIntervalMs\<close> only decide when a cycle is triggered and
  are left out, with \<^verbatim>\<open>startWatching\<close> and \<^verbatim>\<open>stopWatching\<close>; the arrival of a timer tick is
  an event of the subsection on triggers below. The constructor (lines 22-30) resolves the directory,
  creates \<^verbatim>\<open>plugins\<close> and sets the anchor to what \<^verbatim>\<open>loadLastUpdateTimestamp\<close> returns; the
  statements below are about any state, so also about the one it builds.
\<close>

record ('k, 'i) loader =
  scriptsCache :: "string \<rightharpoonup> ('k, 'i) ScriptInstance"
  scriptDir :: path
  anchor :: date
  timestampFile :: path
  isLoading :: bool
  disk :: filesystem
  requireCache :: "path \<rightharpoonup> 'i module_exports"
  logged :: "(level \<times> message) list"

text \<open>
  The abstract methods a subclass supplies (lines 92-163). \<^verbatim>\<open>getUpdatedScripts\<close> returns
  a promise, which may reject; the others are synchronous and are taken at their declared
  types, as total functions.
\<close>

record 'k host =
  getUpdatedScripts :: "date \<Rightarrow> error + 'k list"
  getNextAnchor :: "'k list \<Rightarrow> date"
  isActiveScript :: "'k \<Rightarrow> bool"
  isObsoletedScript :: "'k \<Rightarrow> bool"
  getFileName :: "'k \<Rightarrow> string"
  getScriptKey :: "'k \<Rightarrow> string"
  getScriptText :: "'k \<Rightarrow> ustring"

text \<open>
  Compiling and running a module's text is the engine's work: \<open>ev path text\<close> is what
  evaluating the file at \<open>path\<close> with content \<open>text\<close> gives, exports or an exception.
\<close>

type_synonym 'i evaluator = "path \<Rightarrow> ustring \<Rightarrow> error + 'i module_exports"

definition say :: "level \<Rightarrow> message \<Rightarrow> ('k, 'i) loader \<Rightarrow> ('k, 'i) loader" where
  "say l m s = s\<lparr>logged := logged s @ [(l, m)]\<rparr>"

subsection \<open>Anchor store (lines 37-68)\<close>

text \<open>
  The \<^verbatim>\<open>try\<close> block of \<^verbatim>\<open>loadLastUpdateTimestamp\<close> (lines 39-49). \<open>Inl\<close> is an exception,
  \<open>Inr (Some date)\<close> the \<^verbatim>\<open>return date\<close> of line 45, \<open>Inr None\<close> leaving the block at its
  end. The template literal of line 44 calls \<^verbatim>\<open>toISOString\<close> before anything is logged.
\<close>

definition loadLastUpdateTimestamp_try ::
  "bool \<Rightarrow> ('k, 'i) loader \<Rightarrow> (error + date option) \<times> ('k, 'i) loader" where
  "loadLastUpdateTimestamp_try clean s =
     (if \<not> clean \<and> existsSync (disk s) (timestampFile s) then
        (case readFileSync (disk s) (timestampFile s) of
           Inl err \<Rightarrow> (Inl err, s)
         | Inr raw \<Rightarrow>
             (let timestamp = trim raw; timestampNum = parseInt timestamp
              in case timestampNum of
                   None \<Rightarrow> (Inr None, say WARN (TimestampInvalid timestamp) s)
                 | Some n \<Rightarrow>
                     if n > 0 then
                       (let date = new_Date n
                        in case toISOString date of
                             Inl err \<Rightarrow> (Inl err, s)
                           | Inr isoText \<Rightarrow> (Inr (Some date), say DEBUG (TimestampLoaded isoText) s))
                     else (Inr None, say WARN (TimestampInvalid timestamp) s)))
      else (Inr None, s))"

definition loadLastUpdateTimestamp :: "bool \<Rightarrow> ('k, 'i) loader \<Rightarrow> date \<times> ('k, 'i) loader" where
  "loadLastUpdateTimestamp clean s =
     (case loadLastUpdateTimestamp_try clean s of
        (Inr (Some date), s1) \<Rightarrow> (date, s1)
      | (Inr None, s1) \<Rightarrow> (new_Date 0, say DEBUG TimestampDefault s1)
      | (Inl err, s1) \<Rightarrow>
          (new_Date 0, say DEBUG TimestampDefault (say ERROR (TimestampReadFailed err) s1)))"

definition saveLastUpdateTimestamp :: "date \<Rightarrow> ('k, 'i) loader \<Rightarrow> ('k, 'i) loader" where
  "saveLastUpdateTimestamp timestamp s =
     (case writeFile (disk s) (timestampFile s) (getTime_toString timestamp) of
        (Some err, d) \<Rightarrow> say ERROR (TimestampSaveFailed err) (s\<lparr>disk := d\<rparr>)
      | (None, d) \<Rightarrow>
          (case toISOString timestamp of
             Inl err \<Rightarrow> say ERROR (TimestampSaveFailed err) (s\<lparr>disk := d\<rparr>)
           | Inr isoText \<Rightarrow> say DEBUG (TimestampSaved isoText) (s\<lparr>disk := d\<rparr>)))"

subsection \<open>Materializer (lines 189-267)\<close>

text \<open>
  \<^verbatim>\<open>path.join(this.scriptDir, 'plugins', `${fileName}.js`)\<close>, for a file name that needs
  no normalisation (no \<^verbatim>\<open>.\<close> or \<^verbatim>\<open>..\<close> segment, no doubled separator).
\<close>

definition pluginPath :: "('k, 'i) loader \<Rightarrow> string \<Rightarrow> path" where
  "pluginPath s fileName = scriptDir s @ ''/plugins/'' @ fileName @ ''.js''"

text \<open>
  \<^verbatim>\<open>writeScriptFile\<close> (lines 257-267) rejects with a new \<^verbatim>\<open>Error\<close> whose message names the
  path, followed in the source by the message of the system error.
\<close>

definition writeScriptFile ::
  "path \<Rightarrow> ustring \<Rightarrow> ('k, 'i) loader \<Rightarrow> error option \<times> ('k, 'i) loader" where
  "writeScriptFile filePath script s =
     (case writeFile (disk s) filePath script of
        (Some err, d) \<Rightarrow>
          (Some (PlainError (''Failed to write script file '' @ filePath)), s\<lparr>disk := d\<rparr>)
      | (None, d) \<Rightarrow> (None, s\<lparr>disk := d\<rparr>))"

text \<open>
  \<^verbatim>\<open>require(filePath)\<close>: a module already in the cache is returned as it is; otherwise the
  file is read and evaluated, and cached when the evaluation succeeds.
\<close>

definition require ::
  "'i evaluator \<Rightarrow> path \<Rightarrow> ('k, 'i) loader \<Rightarrow> (error + 'i module_exports) \<times> ('k, 'i) loader" where
  "require ev filePath s =
     (case requireCache s filePath of
        Some m \<Rightarrow> (Inr m, s)
      | None \<Rightarrow>
          (case readFileSync (disk s) filePath of
             Inl err \<Rightarrow> (Inl err, s)
           | Inr text \<Rightarrow>
               (case ev filePath text of
                  Inl err \<Rightarrow> (Inl err, s)
                | Inr m \<Rightarrow> (Inr m, s\<lparr>requireCache := (requireCache s)(filePath \<mapsto> m)\<rparr>))))"

text \<open>
  The \<^verbatim>\<open>try\<close> block of \<^verbatim>\<open>loadOrUpdateScript\<close> (lines 194-211). Whatever has been done
  when an exception is thrown stays done: the state comes back with the error.
\<close>

definition loadOrUpdateScript_try ::
  "'i evaluator \<Rightarrow> 'k host \<Rightarrow> 'k \<Rightarrow> path \<Rightarrow> string \<Rightarrow> ('k, 'i) loader
     \<Rightarrow> error option \<times> ('k, 'i) loader" where
  "loadOrUpdateScript_try ev h scriptData filePath key s =
     (let isNew = (scriptsCache s key = None)
      in case writeScriptFile filePath (getScriptText h scriptData) s of
           (Some err, s1) \<Rightarrow> (Some err, s1)
         | (None, s1) \<Rightarrow>
             (let s2 = say INFO (ScriptFileWritten isNew filePath) s1;
                  s3 = (if requireCache s2 filePath \<noteq> None
                        then s2\<lparr>requireCache := (requireCache s2)(filePath := None)\<rparr>
                        else s2)
              in case require ev filePath s3 of
                   (Inl err, s4) \<Rightarrow> (Some err, s4)
                 | (Inr moduleExports, s4) \<Rightarrow>
                     (case default_or_self moduleExports of
                        Inl err \<Rightarrow> (Some err, s4)
                      | Inr ScriptClass \<Rightarrow>
                          (case ScriptClass of
                             Function outcome \<Rightarrow>
                               (case outcome of
                                  Inl err \<Rightarrow> (Some err, s4)
                                | Inr created \<Rightarrow>
                                    (let apiInstance = \<lparr>metaData = scriptData, inst = created\<rparr>
                                     in (None, s4\<lparr>scriptsCache := (scriptsCache s4)(key \<mapsto> apiInstance)\<rparr>)))
                           | _ \<Rightarrow>
                               (Some (PlainError (''Script module does not export a constructor: '' @ filePath)),
                                s4)))))"

definition loadOrUpdateScript ::
  "'i evaluator \<Rightarrow> 'k host \<Rightarrow> 'k \<Rightarrow> ('k, 'i) loader \<Rightarrow> ('k, 'i) loader" where
  "loadOrUpdateScript ev h scriptData s =
     (let fileName = getFileName h scriptData;
          key = getScriptKey h scriptData;
          filePath = pluginPath s fileName
      in case loadOrUpdateScript_try ev h scriptData filePath key s of
           (Some err, s1) \<Rightarrow> say ERROR (ScriptLoadFailed filePath err) s1
         | (None, s1) \<Rightarrow> s1)"

text \<open>
  \<^verbatim>\<open>removeScriptFile\<close> (lines 238-249) has no handler of its own: when \<^verbatim>\<open>unlink\<close> rejects,
  the rest of the method is skipped and the error leaves with the state as it then is.
\<close>

definition removeScriptFile ::
  "path \<Rightarrow> ('k, 'i) loader \<Rightarrow> error option \<times> ('k, 'i) loader" where
  "removeScriptFile filePath s =
     (let clear = (\<lambda>t. if requireCache t filePath \<noteq> None
                        then say DEBUG (RequireCacheCleared filePath)
                               (t\<lparr>requireCache := (requireCache t)(filePath := None)\<rparr>)
                        else t)
      in if access (disk s) filePath then
           (case unlink (disk s) filePath of
              (Some err, d) \<Rightarrow> (Some err, s\<lparr>disk := d\<rparr>)
            | (None, d) \<Rightarrow> (None, clear (say INFO (ScriptFileDeleted filePath) (s\<lparr>disk := d\<rparr>))))
         else (None, clear (say INFO (ScriptFileNotFound filePath) s)))"

definition removeScript ::
  "'k host \<Rightarrow> 'k \<Rightarrow> ('k, 'i) loader \<Rightarrow> error option \<times> ('k, 'i) loader" where
  "removeScript h scriptData s =
     (let fileName = getFileName h scriptData;
          key = getScriptKey h scriptData;
          filePath = pluginPath s fileName
      in case removeScriptFile filePath s of
           (Some err, s1) \<Rightarrow> (Some err, s1)
         | (None, s1) \<Rightarrow>
             (None, if scriptsCache s1 key \<noteq> None
                    then s1\<lparr>scriptsCache := (scriptsCache s1)(key := None)\<rparr>
                    else s1))"

subsection \<open>Sync engine (lines 99-121, 172-181, 305-318)\<close>

definition processScriptUpdate ::
  "'i evaluator \<Rightarrow> 'k host \<Rightarrow> 'k \<Rightarrow> ('k, 'i) loader \<Rightarrow> error option \<times> ('k, 'i) loader" where
  "processScriptUpdate ev h scriptData s =
     (if isActiveScript h scriptData then (None, loadOrUpdateScript ev h scriptData s)
      else if isObsoletedScript h scriptData then removeScript h scriptData s
      else (None, s))"

text \<open>The \<^verbatim>\<open>for\<close> loop of lines 110-112: an exception ends it at the record that threw.\<close>

fun processBatch ::
  "'i evaluator \<Rightarrow> 'k host \<Rightarrow> 'k list \<Rightarrow> ('k, 'i) loader \<Rightarrow> error option \<times> ('k, 'i) loader" where
  "processBatch ev h [] s = (None, s)"
| "processBatch ev h (item # rest) s =
     (case processScriptUpdate ev h item s of
        (Some err, s1) \<Rightarrow> (Some err, s1)
      | (None, s1) \<Rightarrow> processBatch ev h rest s1)"

text \<open>The \<^verbatim>\<open>try\<close> block of \<^verbatim>\<open>loadLatestScripts\<close> (lines 107-115).\<close>

definition loadLatestScripts_try ::
  "'i evaluator \<Rightarrow> 'k host \<Rightarrow> ('k, 'i) loader \<Rightarrow> error option \<times> ('k, 'i) loader" where
  "loadLatestScripts_try ev h s =
     (case getUpdatedScripts h (anchor s) of
        Inl err \<Rightarrow> (Some err, s)
      | Inr scriptList \<Rightarrow>
          if length scriptList > 0 then
            (case processBatch ev h scriptList s of
               (Some err, s1) \<Rightarrow> (Some err, s1)
             | (None, s1) \<Rightarrow>
                 (let s2 = s1\<lparr>anchor := getNextAnchor h scriptList\<rparr>
                  in (None, saveLastUpdateTimestamp (anchor s2) s2)))
          else (None, s))"

text \<open>
  \<^verbatim>\<open>loadLatestScripts\<close> in its two halves. \<open>cycle_enter\<close> is the guard and the setting of the
  flag (lines 100-105), which run without a suspension point; it says whether a cycle was
  started. \<open>cycle_run\<close> is the \<^verbatim>\<open>try\<close>/\<^verbatim>\<open>catch\<close>/\<^verbatim>\<open>finally\<close> (lines 106-120).
\<close>

definition cycle_enter :: "('k, 'i) loader \<Rightarrow> bool \<times> ('k, 'i) loader" where
  "cycle_enter s =
     (if isLoading s then (False, say DEBUG LoadingInProgress s)
      else (True, s\<lparr>isLoading := True\<rparr>))"

definition cycle_run :: "'i evaluator \<Rightarrow> 'k host \<Rightarrow> ('k, 'i) loader \<Rightarrow> ('k, 'i) loader" where
  "cycle_run ev h s =
     (let s1 = (case loadLatestScripts_try ev h s of
                  (Some err, t) \<Rightarrow> say ERROR (LoadLatestFailed err) t
                | (None, t) \<Rightarrow> t)
      in s1\<lparr>isLoading := False\<rparr>)"

definition loadLatestScripts :: "'i evaluator \<Rightarrow> 'k host \<Rightarrow> ('k, 'i) loader \<Rightarrow> ('k, 'i) loader" where
  "loadLatestScripts ev h s =
     (case cycle_enter s of
        (False, s1) \<Rightarrow> s1
      | (True, s1) \<Rightarrow> cycle_run ev h s1)"

definition checkForUpdates :: "'i evaluator \<Rightarrow> 'k host \<Rightarrow> ('k, 'i) loader \<Rightarrow> ('k, 'i) loader" where
  "checkForUpdates ev h s = loadLatestScripts ev h (say LOG ManualCheck s)"

definition get :: "('k, 'i) loader \<Rightarrow> string \<Rightarrow> 'i option" where
  "get s key = (case scriptsCache s key of None \<Rightarrow> None | Some scriptInst \<Rightarrow> Some (inst scriptInst))"

subsection \<open>Triggers and cycles over time\<close>

text \<open>
  JavaScript runs one callback at a time, and a cycle gives way to other callbacks only
  where it awaits. What can happen while a cycle is suspended is that another trigger
  arrives: a timer tick (line 279) or a call of \<^verbatim>\<open>checkForUpdates\<close>. An event is such an
  arrival, or the moment the suspended cycle resumes and runs to its end against the host
  as it then answers. \<open>inflight\<close> counts the calls of \<^verbatim>\<open>loadLatestScripts\<close> that have
  passed the guard and have not returned; it belongs to the observer, not to the class.
\<close>

datatype 'k event = TimerTick | ManualTrigger | Settle "'k host"

fun step ::
  "'i evaluator \<Rightarrow> 'k event \<Rightarrow> ('k, 'i) loader \<times> nat \<Rightarrow> ('k, 'i) loader \<times> nat" where
  "step ev TimerTick (s, inflight) =
     (case cycle_enter s of
        (True, s1) \<Rightarrow> (s1, inflight + 1)
      | (False, s1) \<Rightarrow> (s1, inflight))"
| "step ev ManualTrigger (s, inflight) =
     (case cycle_enter (say LOG ManualCheck s) of
        (True, s1) \<Rightarrow> (s1, inflight + 1)
      | (False, s1) \<Rightarrow> (s1, inflight))"
| "step ev (Settle h) (s, inflight) =
     (if inflight > 0 then (cycle_run ev h s, inflight - 1) else (s, inflight))"

fun run ::
  "'i evaluator \<Rightarrow> 'k event list \<Rightarrow> ('k, 'i) loader \<times> nat \<Rightarrow> ('k, 'i) loader \<times> nat" where
  "run ev [] c = c"
| "run ev (e # es) c = run ev es (step ev e c)"

text \<open>
  Cycles one after the other, each against the host as it answers at that time (its data
  source changes between cycles).
\<close>

fun run_cycles :: "'i evaluator \<Rightarrow> 'k host list \<Rightarrow> ('k, 'i) loader \<Rightarrow> ('k, 'i) loader" where
  "run_cycles ev [] s = s"
| "run_cycles ev (h # hs) s = run_cycles ev hs (loadLatestScripts ev h s)"

text \<open>
  The part of the contract of \<^verbatim>\<open>getNextAnchor\<close> that the engine relies on, checked along
  a run: whenever a cycle fetches a non-empty batch, the next anchor computed from it is at
  or after the anchor the batch was fetched with.
\<close>

fun anchor_contract :: "'i evaluator \<Rightarrow> 'k host list \<Rightarrow> ('k, 'i) loader \<Rightarrow> bool" where
  "anchor_contract ev [] s = True"
| "anchor_contract ev (h # hs) s =
     ((case getUpdatedScripts h (anchor s) of
         Inl err \<Rightarrow> True
       | Inr scriptList \<Rightarrow> scriptList = [] \<or> date_le (anchor s) (getNextAnchor h scriptList))
      \<and> anchor_contract ev hs (loadLatestScripts ev h s))"

text \<open>Non-decreasing: the same date (valid or not), or a later one.\<close>

definition anchor_le :: "date \<Rightarrow> date \<Rightarrow> bool" where
  "anchor_le a b = (a = b \<or> date_le a b)"

section \<open>A concrete subclass\<close>

text \<open>
  The subclass \<^verbatim>\<open>MyScriptLoader\<close> of the README (lines 355-392 of the source file), over
  a table standing for its database, and an engine that knows three module texts. The
  concrete runs below are runs of this subclass.
\<close>

record MyScriptData =
  sd_id :: string
  sd_name :: string
  sd_content :: string
  sd_status :: string
  sd_updateTime :: int

definition MyScriptLoader :: "MyScriptData list \<Rightarrow> MyScriptData host" where
  "MyScriptLoader table =
     \<lparr>getUpdatedScripts =
        (\<lambda>a. Inr (filter (\<lambda>r. case a of None \<Rightarrow> False | Some t \<Rightarrow> t < sd_updateTime r) table)),
      getNextAnchor =
        (\<lambda>list. case list of [] \<Rightarrow> None
                 | r # rs \<Rightarrow> new_Date (foldl max (sd_updateTime r) (map sd_updateTime rs))),
      isActiveScript = (\<lambda>r. sd_status r = ''active''),
      isObsoletedScript = (\<lambda>r. sd_status r = ''deleted''),
      getFileName = sd_name,
      getScriptKey = sd_id,
      getScriptText = (\<lambda>r. units (sd_content r))\<rparr>"

definition engine :: "string evaluator" where
  "engine p text =
     (if text = units ''module.exports = class V1 {}''
        then Inr \<lparr>exports_value = Function (Inr ''V1''), default_prop = Nullish\<rparr>
      else if text = units ''module.exports = class V2 {}''
        then Inr \<lparr>exports_value = Function (Inr ''V2''), default_prop = Nullish\<rparr>
      else if text = units ''module.exports = 42''
        then Inr \<lparr>exports_value = Primitive True, default_prop = Nullish\<rparr>
      else Inl (Rejected ''SyntaxError''))"

text \<open>A loader as the constructor leaves it on an empty script directory \<^verbatim>\<open>/srv\<close>.\<close>

definition fresh :: "(MyScriptData, string) loader" where
  "fresh =
     \<lparr>scriptsCache = Map.empty,
      scriptDir = ''/srv'',
      anchor = new_Date 0,
      timestampFile = ''/srv/.last_update_timestamp'',
      isLoading = False,
      disk = \<lparr>nodes = [''/srv'' \<mapsto> Dir, ''/srv/plugins'' \<mapsto> Dir],
              refused = {}, unsearchable = {}, journal = []\<rparr>,
      requireCache = Map.empty,
      logged = []\<rparr>"

definition on_disk :: "path \<Rightarrow> node \<Rightarrow> ('k, 'i) loader \<Rightarrow> ('k, 'i) loader" where
  "on_disk p n s = s\<lparr>disk := (disk s)\<lparr>nodes := (nodes (disk s))(p \<mapsto> n)\<rparr>\<rparr>"

definition deny :: "path \<Rightarrow> ('k, 'i) loader \<Rightarrow> ('k, 'i) loader" where
  "deny p s = s\<lparr>disk := (disk s)\<lparr>refused := insert p (refused (disk s))\<rparr>\<rparr>"

definition hide :: "path \<Rightarrow> ('k, 'i) loader \<Rightarrow> ('k, 'i) loader" where
  "hide p s = s\<lparr>disk := (disk s)\<lparr>unsearchable := insert p (unsearchable (disk s))\<rparr>\<rparr>"

definition script :: "string \<Rightarrow> string \<Rightarrow> string \<Rightarrow> int \<Rightarrow> MyScriptData" where
  "script name text status t =
     \<lparr>sd_id = name, sd_name = name, sd_content = text, sd_status = status, sd_updateTime = t\<rparr>"

text \<open>
  Records of the table: version 1 of script \<^verbatim>\<open>a\<close>, an update of \<^verbatim>\<open>a\<close> whose module exports
  a number, the deletion of \<^verbatim>\<open>a\<close>, a draft of \<^verbatim>\<open>a\<close> (neither active nor deleted), and a
  script \<^verbatim>\<open>b\<close>.
\<close>

definition a_v1 :: MyScriptData where
  "a_v1 = script ''a'' ''module.exports = class V1 {}'' ''active'' 5"

definition a_bad :: MyScriptData where
  "a_bad = script ''a'' ''module.exports = 42'' ''active'' 9"

definition a_gone :: MyScriptData where
  "a_gone = script ''a'' [] ''deleted'' 12"

definition a_draft :: MyScriptData where
  "a_draft = script ''a'' ''module.exports = class V2 {}'' ''draft'' 13"

definition b_v2 :: MyScriptData where
  "b_v2 = script ''b'' ''module.exports = class V2 {}'' ''active'' 14"

text \<open>The loader after one cycle that found \<^const>\<open>a_v1\<close>.\<close>

definition with_a :: "(MyScriptData, string) loader" where
  "with_a = loadLatestScripts engine (MyScriptLoader [a_v1]) fresh"

text \<open>
  Starting points that differ from those above in one thing each: a timestamp file with a
  given Latin-1 content, a loaded artifact of \<^verbatim>\<open>a\<close> that the system refuses to delete, a loaded
  artifact of \<^verbatim>\<open>a\<close> that it will not look up, and a timestamp file that it refuses to write.
\<close>

definition stamped :: "string \<Rightarrow> (MyScriptData, string) loader" where
  "stamped text = on_disk ''/srv/.last_update_timestamp'' (File (units text)) fresh"

text \<open>
  A timestamp file that starts with a byte order mark (U+FEFF) and ends with a paragraph
  separator (U+2029), both of which \<^verbatim>\<open>trim\<close> removes.
\<close>

definition marked_stamp :: "(MyScriptData, string) loader" where
  "marked_stamp =
     on_disk ''/srv/.last_update_timestamp''
       (File (65279 # units ''1700000000000'' @ [8233])) fresh"

definition undeletable_a :: "(MyScriptData, string) loader" where
  "undeletable_a = deny ''/srv/plugins/a.js'' with_a"

definition unsearchable_a :: "(MyScriptData, string) loader" where
  "unsearchable_a = hide ''/srv/plugins/a.js'' with_a"

definition unwritable_stamp :: "(MyScriptData, string) loader" where
  "unwritable_stamp = deny ''/srv/.last_update_timestamp'' fresh"

section \<open>Facts about the runtime\<close>

lemma units_eq_iff: "units a = units b \<longleftrightarrow> a = b"
  unfolding units_def by (rule inj_map_eq_map) (rule inj_of_char)

lemmas model_defs =
  loadLatestScripts_def cycle_enter_def cycle_run_def loadLatestScripts_try_def
  processScriptUpdate_def loadOrUpdateScript_def loadOrUpdateScript_try_def writeScriptFile_def
  require_def default_or_self_def removeScript_def removeScriptFile_def pluginPath_def
  saveLastUpdateTimestamp_def loadLastUpdateTimestamp_def loadLastUpdateTimestamp_try_def
  checkForUpdates_def get_def say_def
  writeFile_def unlink_def access_def existsSync_def readFileSync_def denied_def
  toISOString_def new_Date_def maxTime_def getTime_toString_def number_toString_def
  date_le_def anchor_le_def Let_def

lemmas fixture_defs =
  MyScriptLoader_def engine_def fresh_def on_disk_def deny_def hide_def script_def
  a_v1_def a_bad_def a_gone_def a_draft_def b_v2_def
  stamped_def marked_stamp_def undeletable_a_def unsearchable_a_def unwritable_stamp_def units_eq_iff

lemmas parse_defs =
  parseInt_def trim_def is_white_def hex_prefix_def is_radix_digit_def digit_value_def
  digit_nat_def units_def

subsection \<open>Writing and deleting files\<close>

lemma writeFile_denied: "denied (snd (writeFile d p t)) = denied d"
  by (simp add: writeFile_def denied_def Let_def split: option.splits node.splits)

lemma writeFile_unsearchable: "unsearchable (snd (writeFile d p t)) = unsearchable d"
  by (simp add: writeFile_def Let_def split: option.splits node.splits)

lemma writeFile_journal: "journal (snd (writeFile d p t)) = journal d @ [WriteFile p t]"
  by (simp add: writeFile_def Let_def split: option.splits node.splits)

lemma writeFile_ok_iff:
  "fst (writeFile d p t) = None \<longleftrightarrow> p \<notin> denied d \<and> nodes d p \<noteq> Some Dir"
  by (simp add: writeFile_def Let_def split: option.splits node.splits)

lemma writeFile_ok_nodes:
  "fst (writeFile d p t) = None \<Longrightarrow> nodes (snd (writeFile d p t)) = (nodes d)(p \<mapsto> File t)"
  by (simp add: writeFile_def Let_def split: option.splits node.splits if_splits)

lemma writeFile_keeps_Dir:
  "nodes (snd (writeFile d p t)) q = Some Dir \<longleftrightarrow> nodes d q = Some Dir"
  by (simp add: writeFile_def Let_def split: option.splits node.splits)

lemma unlink_denied: "denied (snd (unlink d p)) = denied d"
  by (simp add: unlink_def denied_def Let_def split: option.splits node.splits)

lemma unlink_keeps_Dir:
  "nodes (snd (unlink d p)) q = Some Dir \<longleftrightarrow> nodes d q = Some Dir"
  by (auto simp: unlink_def Let_def split: option.splits node.splits)

subsection \<open>Printing and parsing a time value\<close>

lemma digit_nat_dec: "dec_digit c \<Longrightarrow> digit_nat c = c - 48"
  by (simp add: digit_nat_def digit_value_def dec_digit_def)

lemma digits_rec: "\<not> n < 10 \<Longrightarrow> digits n = digits (n div 10) @ [48 + n mod 10]"
  by (subst digits.simps) simp

lemma digits_base: "n < 10 \<Longrightarrow> digits n = [48 + n]"
  by (subst digits.simps) simp

lemma digits_dec: "c \<in> set (digits n) \<Longrightarrow> dec_digit c"
proof (induction n rule: digits.induct)
  case (1 n)
  show ?case
  proof (cases "n < 10")
    case True
    with "1.prems" show ?thesis
      by (simp add: digits_base dec_digit_def)
  next
    case False
    with "1.prems" have "c \<in> set (digits (n div 10)) \<or> c = 48 + n mod 10"
      by (auto simp: digits_rec)
    then show ?thesis
      using "1.IH" False by (auto simp: dec_digit_def)
  qed
qed

lemma digits_nonempty: "digits n \<noteq> []"
  by (subst digits.simps) simp

lemma digits_decimal: "decimal_string (digits n)"
  by (simp add: decimal_string_def digits_nonempty list_all_iff digits_dec)

lemma digits_value: "decimal_value (digits n) = int n"
proof -
  have "foldl (\<lambda>a c. a * 10 + (c - 48)) 0 (digits n) = n"
  proof (induction n rule: digits.induct)
    case (1 n)
    show ?case
    proof (cases "n < 10")
      case True
      then show ?thesis by (simp add: digits_base)
    next
      case False
      then show ?thesis
        using "1.IH" by (simp add: digits_rec)
    qed
  qed
  then show ?thesis by (simp add: decimal_value_def)
qed

lemma dec_not_white: "dec_digit c \<Longrightarrow> \<not> is_white c"
  by (auto simp: dec_digit_def is_white_def)

lemma radix10_dec: "is_radix_digit 10 c \<longleftrightarrow> dec_digit c"
  by (auto simp: dec_digit_def is_radix_digit_def digit_value_def)

lemma dropWhile_none: "\<forall>c\<in>set xs. \<not> P c \<Longrightarrow> dropWhile P xs = xs"
  by (cases xs) simp_all

lemma decimal_set: "decimal_string xs \<Longrightarrow> \<forall>c\<in>set xs. dec_digit c"
  by (simp add: decimal_string_def list_all_iff)

lemma trim_decimal: "decimal_string xs \<Longrightarrow> trim xs = xs"
  by (simp add: trim_def dropWhile_none dec_not_white decimal_set)

lemma hex_prefix_needs_digits: "hex_prefix xs \<Longrightarrow> \<exists>c r. xs = 48 # c # r \<and> \<not> dec_digit c"
  by (cases xs; cases "tl xs") (auto simp: hex_prefix_def dec_digit_def)

lemma hex_prefix_decimal: "decimal_string xs \<Longrightarrow> \<not> hex_prefix xs"
  using hex_prefix_needs_digits [of xs] decimal_set [of xs] by auto

lemma foldl_digit_nat:
  "\<forall>c\<in>set xs. dec_digit c \<Longrightarrow>
     foldl (\<lambda>a c. a * 10 + digit_nat c) a0 xs = foldl (\<lambda>a c. a * 10 + (c - 48)) a0 xs"
  by (induction xs arbitrary: a0) (simp_all add: digit_nat_dec)

text \<open>On a decimal integer string \<^verbatim>\<open>parseInt\<close> computes the value, with or without a minus.\<close>

lemma parseInt_decimal:
  assumes "decimal_string xs"
  shows "parseInt xs = Some (decimal_value xs)"
proof -
  note ds = decimal_set [OF assms]
  have ne: "xs \<noteq> []" using assms by (simp add: decimal_string_def)
  have dw: "dropWhile is_white xs = xs" using ds by (simp add: dropWhile_none dec_not_white)
  obtain c r where xs: "xs = c # r" using ne by (cases xs) auto
  have c: "c \<noteq> 45" "c \<noteq> 43" using ds xs by (auto simp: dec_digit_def)
  have sg: "(case xs of c # _ \<Rightarrow> if c = 45 then - 1 else (1::int) | [] \<Rightarrow> 1) = 1"
    using c by (simp add: xs)
  have s1: "(case xs of c # r \<Rightarrow> if c = 45 \<or> c = 43 then r else xs | [] \<Rightarrow> xs) = xs"
    using c by (simp add: xs)
  have tw: "takeWhile (is_radix_digit 10) xs = xs"
    using ds by (simp add: takeWhile_eq_all_conv radix10_dec)
  have hp: "hex_prefix xs = False" using assms by (simp add: hex_prefix_decimal)
  show ?thesis
    unfolding parseInt_def Let_def dw sg s1 hp if_False tw
    using ne ds by (simp add: decimal_value_def foldl_digit_nat)
qed

lemma parseInt_minus_decimal:
  assumes "decimal_string xs"
  shows "parseInt (45 # xs) = Some (- decimal_value xs)"
proof -
  note ds = decimal_set [OF assms]
  have ne: "xs \<noteq> []" using assms by (simp add: decimal_string_def)
  have w: "\<not> is_white 45" by (simp add: is_white_def)
  have tw: "takeWhile (is_radix_digit 10) xs = xs"
    using ds by (simp add: takeWhile_eq_all_conv radix10_dec)
  have hp: "hex_prefix xs = False" using assms by (simp add: hex_prefix_decimal)
  show ?thesis
    using ne ds by (simp add: parseInt_def Let_def w hp tw decimal_value_def foldl_digit_nat)
qed

lemma rev_dropWhile_rev_prefix:
  "u = rev (dropWhile P (rev u)) @ rev (takeWhile P (rev u))"
proof -
  have "rev (takeWhile P (rev u) @ dropWhile P (rev u)) = rev (rev u)"
    by (simp only: takeWhile_dropWhile_id)
  then show ?thesis by (simp only: rev_append rev_rev_ident)
qed

lemma trim_head:
  assumes "trim s = c # r"
  shows "\<not> is_white c"
proof -
  let ?u = "dropWhile is_white s"
  have "?u = trim s @ rev (takeWhile is_white (rev ?u))"
    unfolding trim_def by (rule rev_dropWhile_rev_prefix)
  with assms have u: "?u = c # (r @ rev (takeWhile is_white (rev ?u)))" by simp
  have "hd ?u = c" by (subst u) simp
  moreover have "?u \<noteq> []" by (subst u) simp
  ultimately show ?thesis using hd_dropWhile [of is_white s] by auto
qed

lemma parseInt_no_integer:
  assumes "\<not> begins_with_integer t" and "t = [] \<or> \<not> is_white (hd t)"
  shows "parseInt t = None"
proof (cases t)
  case Nil
  then show ?thesis by (simp add: parseInt_def hex_prefix_def)
next
  case (Cons c r)
  with assms(2) have w: "\<not> is_white c" by simp
  show ?thesis
  proof (cases "c = 45 \<or> c = 43")
    case True
    with assms(1) Cons have r: "r = [] \<or> \<not> dec_digit (hd r)"
      by (cases r) (auto simp: begins_with_integer_def)
    then have hp: "\<not> hex_prefix r"
      using hex_prefix_needs_digits [of r] by (auto simp: dec_digit_def)
    from r have "takeWhile (is_radix_digit 10) r = []"
      by (cases r) (auto simp: radix10_dec)
    with True hp w show ?thesis by (auto simp: parseInt_def Let_def Cons)
  next
    case False
    with assms(1) Cons have d: "\<not> dec_digit c" by (auto simp: begins_with_integer_def)
    then have hp: "\<not> hex_prefix t"
      using hex_prefix_needs_digits [of t] Cons by (auto simp: dec_digit_def)
    from d have "takeWhile (is_radix_digit 10) t = []" by (simp add: Cons radix10_dec)
    with False hp w show ?thesis by (auto simp: parseInt_def Let_def Cons)
  qed
qed

lemma parseInt_trim_no_integer: "\<not> begins_with_integer (trim raw) \<Longrightarrow> parseInt (trim raw) = None"
  using trim_head [of raw] by (intro parseInt_no_integer) (auto simp: neq_Nil_conv)

lemma parseInt_trim_number_toString:
  "0 \<le> t \<Longrightarrow> parseInt (trim (number_toString t)) = Some t"
  by (simp add: number_toString_def trim_decimal digits_decimal parseInt_decimal digits_value)

lemma digits_5: "digits 5 = units ''5''"
  by (simp add: digits_base units_def)

lemma digits_14: "digits 14 = units ''14''"
  by (simp add: digits_rec digits_base units_def)

section \<open>Facts about the materializer\<close>

lemma try_cache:
  "loadOrUpdateScript_try ev h r p key s = (Some err, s1) \<Longrightarrow> scriptsCache s1 = scriptsCache s"
  by (auto simp: loadOrUpdateScript_try_def writeScriptFile_def require_def say_def Let_def
      split: prod.splits option.splits sum.splits jsvalue.splits if_splits)

lemma try_disk:
  "loadOrUpdateScript_try ev h r p key s = (res, s1) \<Longrightarrow>
     disk s1 = snd (writeFile (disk s) p (getScriptText h r))"
  by (auto simp: loadOrUpdateScript_try_def writeScriptFile_def require_def say_def Let_def
      split: prod.splits option.splits sum.splits jsvalue.splits if_splits)

lemma loadOrUpdateScript_disk:
  "disk (loadOrUpdateScript ev h r s) =
     snd (writeFile (disk s) (pluginPath s (getFileName h r)) (getScriptText h r))"
  by (auto simp: loadOrUpdateScript_def Let_def say_def split: prod.splits option.splits
      dest: try_disk)

text \<open>The first cycle of the README's subclass on an empty directory, computed.\<close>

lemma with_a_eq:
  "with_a =
     fresh\<lparr>scriptsCache := [''a'' \<mapsto> \<lparr>metaData = a_v1, inst = ''V1''\<rparr>],
       anchor := Some 5,
       disk := \<lparr>nodes = [''/srv'' \<mapsto> Dir, ''/srv/plugins'' \<mapsto> Dir,
                  ''/srv/plugins/a.js'' \<mapsto> File (units ''module.exports = class V1 {}''),
                  ''/srv/.last_update_timestamp'' \<mapsto> File (units ''5'')],
                refused = {}, unsearchable = {},
                journal = [WriteFile ''/srv/plugins/a.js'' (units ''module.exports = class V1 {}''),
                           WriteFile ''/srv/.last_update_timestamp'' (units ''5'')]\<rparr>,
       requireCache := [''/srv/plugins/a.js'' \<mapsto>
                          \<lparr>exports_value = Function (Inr ''V1''), default_prop = Nullish\<rparr>],
       logged := [(INFO, ScriptFileWritten True ''/srv/plugins/a.js''), (DEBUG, TimestampSaved 5)]\<rparr>"
  by (simp add: with_a_def model_defs fixture_defs digits_5)

section \<open>The claims\<close>

text \<open>
  Claim C2. On the activation path, when materialization fails, that is when the \<^verbatim>\<open>try\<close>
  block of \<^verbatim>\<open>loadOrUpdateScript\<close> ends with an exception (the write is refused, the
  module cannot be loaded, it exports no function, or its constructor throws), the cache is
  exactly what it was: no entry is evicted or replaced, and \<^verbatim>\<open>get\<close> on the record's key
  answers as before.
\<close>

theorem C2_failed_activation_keeps_cache:
  "fst (loadOrUpdateScript_try ev h r (pluginPath s (getFileName h r)) (getScriptKey h r) s)
     = Some err \<Longrightarrow>
   scriptsCache (loadOrUpdateScript ev h r s) = scriptsCache s
   \<and> get (loadOrUpdateScript ev h r s) (getScriptKey h r) = get s (getScriptKey h r)"
  by (auto simp: loadOrUpdateScript_def Let_def say_def get_def split: prod.splits option.splits
      dest: try_cache)

text \<open>
  A run of it: \<^verbatim>\<open>a\<close> is cached as \<^verbatim>\<open>V1\<close>, then an update of \<^verbatim>\<open>a\<close> arrives whose module
  exports the number 42. The activation fails at line 207 and \<^verbatim>\<open>get('a')\<close> is still \<^verbatim>\<open>V1\<close>.
\<close>

theorem C2_failed_activation_keeps_cache_witness:
  "fst (loadOrUpdateScript_try engine (MyScriptLoader []) a_bad
          (pluginPath with_a (getFileName (MyScriptLoader []) a_bad))
          (getScriptKey (MyScriptLoader []) a_bad) with_a)
     = Some (PlainError ''Script module does not export a constructor: /srv/plugins/a.js'')
   \<and> get with_a ''a'' = Some ''V1''
   \<and> get (loadOrUpdateScript engine (MyScriptLoader []) a_bad with_a) ''a'' = Some ''V1''"
proof -
  have failed:
    "fst (loadOrUpdateScript_try engine (MyScriptLoader []) a_bad
            (pluginPath with_a (getFileName (MyScriptLoader []) a_bad))
            (getScriptKey (MyScriptLoader []) a_bad) with_a)
       = Some (PlainError ''Script module does not export a constructor: /srv/plugins/a.js'')"
    by (simp add: with_a_eq model_defs fixture_defs)
  have before: "get with_a ''a'' = Some ''V1''"
    by (simp add: with_a_eq get_def fresh_def)
  have key: "getScriptKey (MyScriptLoader []) a_bad = ''a''"
    by (simp add: fixture_defs)
  from C2_failed_activation_keeps_cache [OF failed] failed before key show ?thesis by simp
qed

text \<open>
  Claim C5. A cycle that runs (the flag was clear on entry) and whose source answers with
  the empty list leaves the whole state as it found it: the cache, the disk with its journal
  of write and unlink calls (so no artifact is written or deleted and the timestamp file is
  not written again), the anchor, the module cache and the log.
\<close>

theorem C5_empty_batch_changes_nothing:
  "getUpdatedScripts h (anchor s) = Inr [] \<Longrightarrow> \<not> isLoading s \<Longrightarrow>
   loadLatestScripts ev h s = s"
  by (simp add: loadLatestScripts_def cycle_enter_def cycle_run_def loadLatestScripts_try_def)

text \<open>
  The second cycle of the README's subclass, when nothing has changed since the first.
\<close>

theorem C5_empty_batch_changes_nothing_witness:
  "getUpdatedScripts (MyScriptLoader [a_v1]) (anchor with_a) = Inr []
   \<and> \<not> isLoading with_a
   \<and> loadLatestScripts engine (MyScriptLoader [a_v1]) with_a = with_a"
proof -
  have empty: "getUpdatedScripts (MyScriptLoader [a_v1]) (anchor with_a) = Inr []"
    by (simp add: with_a_eq fixture_defs)
  have idle: "\<not> isLoading with_a"
    by (simp add: with_a_eq fresh_def)
  from C5_empty_batch_changes_nothing [OF empty idle] empty idle show ?thesis by simp
qed

text \<open>
  Claim C7, as the code has it. When \<^verbatim>\<open>removeScript\<close> completes, nothing is left in the
  cache under the record's key, so \<^verbatim>\<open>get\<close> answers absent; and nothing is left at the
  artifact's path either, unless the system would not look the path up. The test of line
  239 takes every rejection of \<^verbatim>\<open>access\<close> for "not found": an artifact that is missing, or
  that the system will not look up, is no error and leaves the disk untouched, with no
  unlink attempted. An artifact that is a regular file the system lets the loader reach and
  delete makes the removal complete, and by the first part it is gone afterwards.
\<close>

theorem C7_removal_clears_artifact_and_cache:
  "(fst (removeScript h r s) = None \<longrightarrow>
       scriptsCache (snd (removeScript h r s)) (getScriptKey h r) = None
     \<and> get (snd (removeScript h r s)) (getScriptKey h r) = None
     \<and> (pluginPath s (getFileName h r) \<notin> unsearchable (disk s) \<longrightarrow>
          nodes (disk (snd (removeScript h r s))) (pluginPath s (getFileName h r)) = None))
   \<and> (nodes (disk s) (pluginPath s (getFileName h r)) = None
        \<or> pluginPath s (getFileName h r) \<in> unsearchable (disk s) \<longrightarrow>
        fst (removeScript h r s) = None \<and> disk (snd (removeScript h r s)) = disk s)
   \<and> (nodes (disk s) (pluginPath s (getFileName h r)) = Some (File text)
        \<and> pluginPath s (getFileName h r) \<notin> denied (disk s) \<longrightarrow>
        fst (removeScript h r s) = None)"
proof -
  let ?p = "pluginPath s (getFileName h r)"
  have completes:
    "scriptsCache (snd (removeScript h r s)) (getScriptKey h r) = None
     \<and> get (snd (removeScript h r s)) (getScriptKey h r) = None
     \<and> (?p \<notin> unsearchable (disk s) \<longrightarrow> nodes (disk (snd (removeScript h r s))) ?p = None)"
    if "fst (removeScript h r s) = None"
    using that
    by (auto simp: removeScript_def removeScriptFile_def access_def unlink_def say_def get_def
        Let_def split: prod.splits option.splits node.splits if_splits)
  have probe_fails:
    "fst (removeScript h r s) = None \<and> disk (snd (removeScript h r s)) = disk s"
    if "nodes (disk s) ?p = None \<or> ?p \<in> unsearchable (disk s)"
    using that
    by (auto simp: removeScript_def removeScriptFile_def access_def say_def Let_def)
  have deletable: "fst (removeScript h r s) = None"
    if "nodes (disk s) ?p = Some (File text) \<and> ?p \<notin> denied (disk s)"
    using that
    by (auto simp: removeScript_def removeScriptFile_def access_def unlink_def denied_def say_def
        Let_def split: prod.splits)
  from completes probe_fails deletable show ?thesis by blast
qed

text \<open>
  The deletion of \<^verbatim>\<open>a\<close> after it was loaded, on a directory that never held it, and on a
  directory where the system will not look its artifact up.
\<close>

theorem C7_removal_clears_artifact_and_cache_witness:
  "nodes (disk with_a) ''/srv/plugins/a.js'' = Some (File (units ''module.exports = class V1 {}''))
   \<and> ''/srv/plugins/a.js'' \<notin> denied (disk with_a)
   \<and> ''/srv/plugins/a.js'' \<notin> unsearchable (disk with_a)
   \<and> get with_a ''a'' = Some ''V1''
   \<and> fst (removeScript (MyScriptLoader []) a_gone with_a) = None
   \<and> nodes (disk (snd (removeScript (MyScriptLoader []) a_gone with_a))) ''/srv/plugins/a.js'' = None
   \<and> get (snd (removeScript (MyScriptLoader []) a_gone with_a)) ''a'' = None
   \<and> nodes (disk fresh) ''/srv/plugins/a.js'' = None
   \<and> fst (removeScript (MyScriptLoader []) a_gone fresh) = None
   \<and> disk (snd (removeScript (MyScriptLoader []) a_gone fresh)) = disk fresh
   \<and> ''/srv/plugins/a.js'' \<in> unsearchable (disk unsearchable_a)
   \<and> fst (removeScript (MyScriptLoader []) a_gone unsearchable_a) = None
   \<and> disk (snd (removeScript (MyScriptLoader []) a_gone unsearchable_a)) = disk unsearchable_a
   \<and> get (snd (removeScript (MyScriptLoader []) a_gone unsearchable_a)) ''a'' = None"
proof -
  let ?h = "MyScriptLoader []"
  have p1: "pluginPath with_a (getFileName ?h a_gone) = ''/srv/plugins/a.js''"
    and p2: "pluginPath fresh (getFileName ?h a_gone) = ''/srv/plugins/a.js''"
    and p3: "pluginPath unsearchable_a (getFileName ?h a_gone) = ''/srv/plugins/a.js''"
    and k: "getScriptKey ?h a_gone = ''a''"
    by (simp_all add: with_a_eq pluginPath_def fixture_defs)
  have there: "nodes (disk with_a) ''/srv/plugins/a.js''
                 = Some (File (units ''module.exports = class V1 {}''))"
    and allowed: "''/srv/plugins/a.js'' \<notin> denied (disk with_a)"
    and reachable: "''/srv/plugins/a.js'' \<notin> unsearchable (disk with_a)"
    and cached: "get with_a ''a'' = Some ''V1''"
    by (simp_all add: with_a_eq get_def denied_def fresh_def)
  have absent: "nodes (disk fresh) ''/srv/plugins/a.js'' = None"
    by (simp add: fresh_def)
  have hidden: "''/srv/plugins/a.js'' \<in> unsearchable (disk unsearchable_a)"
    by (simp add: unsearchable_a_def hide_def)
  from C7_removal_clears_artifact_and_cache
         [of ?h a_gone with_a "units ''module.exports = class V1 {}''"]
       there allowed reachable
  have w1: "fst (removeScript ?h a_gone with_a) = None"
    and w2: "nodes (disk (snd (removeScript ?h a_gone with_a))) ''/srv/plugins/a.js'' = None"
    and w3: "get (snd (removeScript ?h a_gone with_a)) ''a'' = None"
    by (simp_all add: p1 k)
  from C7_removal_clears_artifact_and_cache [of ?h a_gone fresh] absent
  have w4: "fst (removeScript ?h a_gone fresh) = None"
    and w5: "disk (snd (removeScript ?h a_gone fresh)) = disk fresh"
    by (simp_all add: p2)
  from C7_removal_clears_artifact_and_cache [of ?h a_gone unsearchable_a] hidden
  have w6: "fst (removeScript ?h a_gone unsearchable_a) = None"
    and w7: "disk (snd (removeScript ?h a_gone unsearchable_a)) = disk unsearchable_a"
    and w8: "get (snd (removeScript ?h a_gone unsearchable_a)) ''a'' = None"
    by (simp_all add: p3 k)
  from there allowed reachable cached absent hidden w1 w2 w3 w4 w5 w6 w7 w8
  show ?thesis by simp
qed

text \<open>
  The claim as written says that after a completed removal the artifact does not exist.
  Here the artifact of \<^verbatim>\<open>a\<close> is on the disk and the system will not look its path up, so
  \<^verbatim>\<open>access\<close> rejects: the removal completes without an unlink, the cache entry is deleted,
  and the file is still there.
\<close>

theorem C7_removal_clears_artifact_and_cache_counterexample:
  "isObsoletedScript (MyScriptLoader []) a_gone
   \<and> \<not> isActiveScript (MyScriptLoader []) a_gone
   \<and> get unsearchable_a ''a'' = Some ''V1''
   \<and> fst (removeScript (MyScriptLoader []) a_gone unsearchable_a) = None
   \<and> get (snd (removeScript (MyScriptLoader []) a_gone unsearchable_a)) ''a'' = None
   \<and> journal (disk (snd (removeScript (MyScriptLoader []) a_gone unsearchable_a)))
        = journal (disk unsearchable_a)
   \<and> nodes (disk (snd (removeScript (MyScriptLoader []) a_gone unsearchable_a))) ''/srv/plugins/a.js''
        = Some (File (units ''module.exports = class V1 {}''))"
  by (simp add: with_a_eq model_defs fixture_defs)

text \<open>
  Claim C8. A record the host calls active goes down the activation path whatever the
  obsolete predicate says about it: the outcome is that of \<^verbatim>\<open>loadOrUpdateScript\<close>, it does
  not depend on \<^verbatim>\<open>isObsoletedScript\<close>, and the only file system call made is the write of
  the artifact (no unlink). The obsolete predicate decides only among the records that are
  not active, and a record failing both predicates changes nothing.
\<close>

theorem C8_active_wins_over_obsolete:
  "(isActiveScript h r \<longrightarrow>
      processScriptUpdate ev h r s = (None, loadOrUpdateScript ev h r s)
      \<and> processScriptUpdate ev (h\<lparr>isObsoletedScript := q\<rparr>) r s = processScriptUpdate ev h r s
      \<and> journal (disk (snd (processScriptUpdate ev h r s)))
          = journal (disk s) @ [WriteFile (pluginPath s (getFileName h r)) (getScriptText h r)])
   \<and> (\<not> isActiveScript h r \<and> isObsoletedScript h r \<longrightarrow>
        processScriptUpdate ev h r s = removeScript h r s)
   \<and> (\<not> isActiveScript h r \<and> \<not> isObsoletedScript h r \<longrightarrow>
        processScriptUpdate ev h r s = (None, s))"
  apply (simp add: processScriptUpdate_def loadOrUpdateScript_disk writeFile_journal)
  apply (simp add: loadOrUpdateScript_def loadOrUpdateScript_try_def)
  done

text \<open>
  A host for which \<^const>\<open>a_v1\<close> is both active and obsolete, the deletion record, and a
  draft that is neither.
\<close>

theorem C8_active_wins_over_obsolete_witness:
  "isActiveScript ((MyScriptLoader [])\<lparr>isObsoletedScript := (\<lambda>r. True)\<rparr>) a_v1
   \<and> isObsoletedScript ((MyScriptLoader [])\<lparr>isObsoletedScript := (\<lambda>r. True)\<rparr>) a_v1
   \<and> processScriptUpdate engine ((MyScriptLoader [])\<lparr>isObsoletedScript := (\<lambda>r. True)\<rparr>) a_v1 fresh
       = (None, loadOrUpdateScript engine (MyScriptLoader []) a_v1 fresh)
   \<and> journal (disk (snd (processScriptUpdate engine (MyScriptLoader []) a_v1 fresh)))
       = [WriteFile ''/srv/plugins/a.js'' (units ''module.exports = class V1 {}'')]
   \<and> \<not> isActiveScript (MyScriptLoader []) a_gone \<and> isObsoletedScript (MyScriptLoader []) a_gone
   \<and> processScriptUpdate engine (MyScriptLoader []) a_gone with_a
       = removeScript (MyScriptLoader []) a_gone with_a
   \<and> \<not> isActiveScript (MyScriptLoader []) a_draft \<and> \<not> isObsoletedScript (MyScriptLoader []) a_draft
   \<and> processScriptUpdate engine (MyScriptLoader []) a_draft with_a = (None, with_a)"
proof -
  have act: "isActiveScript (MyScriptLoader []) a_v1"
    and gone: "\<not> isActiveScript (MyScriptLoader []) a_gone" "isObsoletedScript (MyScriptLoader []) a_gone"
    and draft: "\<not> isActiveScript (MyScriptLoader []) a_draft" "\<not> isObsoletedScript (MyScriptLoader []) a_draft"
    by (simp_all add: fixture_defs)
  have j: "journal (disk fresh) = []"
    and p: "pluginPath fresh (getFileName (MyScriptLoader []) a_v1) = ''/srv/plugins/a.js''"
    and t: "getScriptText (MyScriptLoader []) a_v1 = units ''module.exports = class V1 {}''"
    by (simp_all add: pluginPath_def fixture_defs)
  from C8_active_wins_over_obsolete [of "MyScriptLoader []" a_v1 engine fresh "\<lambda>r. True"]
       C8_active_wins_over_obsolete [of "MyScriptLoader []" a_gone engine with_a]
       C8_active_wins_over_obsolete [of "MyScriptLoader []" a_draft engine with_a]
       act gone draft
  show ?thesis by (auto simp: j p t)
qed

text \<open>
  Claim C10. When the artifact has been written and the activation then fails (the module
  does not load, exports no function, or its constructor throws), the file holds the failing
  record's text while the cache is what it was before: the artifact and the cached instance
  of one script can differ.
\<close>

theorem C10_failed_activation_leaves_new_artifact:
  "fst (writeFile (disk s) (pluginPath s (getFileName h r)) (getScriptText h r)) = None \<Longrightarrow>
   fst (loadOrUpdateScript_try ev h r (pluginPath s (getFileName h r)) (getScriptKey h r) s) = Some err \<Longrightarrow>
     nodes (disk (loadOrUpdateScript ev h r s)) (pluginPath s (getFileName h r)) = Some (File (getScriptText h r))
     \<and> scriptsCache (loadOrUpdateScript ev h r s) = scriptsCache s"
  apply (rule conjI)
   apply (simp add: loadOrUpdateScript_disk writeFile_ok_nodes)
  apply (auto simp: loadOrUpdateScript_def Let_def say_def split: prod.splits option.splits dest: try_cache)
  done

text \<open>
  After the failed update of \<^verbatim>\<open>a\<close>, the artifact exports 42 and the cache still serves the
  instance built from version 1.
\<close>

theorem C10_failed_activation_leaves_new_artifact_witness:
  "fst (writeFile (disk with_a) (pluginPath with_a (getFileName (MyScriptLoader []) a_bad))
          (getScriptText (MyScriptLoader []) a_bad)) = None
   \<and> fst (loadOrUpdateScript_try engine (MyScriptLoader []) a_bad
          (pluginPath with_a (getFileName (MyScriptLoader []) a_bad))
          (getScriptKey (MyScriptLoader []) a_bad) with_a)
       = Some (PlainError ''Script module does not export a constructor: /srv/plugins/a.js'')
   \<and> nodes (disk (loadOrUpdateScript engine (MyScriptLoader []) a_bad with_a)) ''/srv/plugins/a.js''
       = Some (File (units ''module.exports = 42''))
   \<and> scriptsCache (loadOrUpdateScript engine (MyScriptLoader []) a_bad with_a) ''a''
       = Some \<lparr>metaData = a_v1, inst = ''V1''\<rparr>
   \<and> sd_content a_v1 = ''module.exports = class V1 {}''"
proof -
  have written:
    "fst (writeFile (disk with_a) (pluginPath with_a (getFileName (MyScriptLoader []) a_bad))
            (getScriptText (MyScriptLoader []) a_bad)) = None"
    by (simp add: with_a_eq model_defs fixture_defs)
  have failed:
    "fst (loadOrUpdateScript_try engine (MyScriptLoader []) a_bad
            (pluginPath with_a (getFileName (MyScriptLoader []) a_bad))
            (getScriptKey (MyScriptLoader []) a_bad) with_a)
       = Some (PlainError ''Script module does not export a constructor: /srv/plugins/a.js'')"
    by (simp add: with_a_eq model_defs fixture_defs)
  have p: "pluginPath with_a (getFileName (MyScriptLoader []) a_bad) = ''/srv/plugins/a.js''"
    and t: "getScriptText (MyScriptLoader []) a_bad = units ''module.exports = 42''"
    and c: "scriptsCache with_a ''a'' = Some \<lparr>metaData = a_v1, inst = ''V1''\<rparr>"
    and v: "sd_content a_v1 = ''module.exports = class V1 {}''"
    by (simp_all add: with_a_eq pluginPath_def fixture_defs)
  from C10_failed_activation_leaves_new_artifact [OF written failed] written failed c v show ?thesis by (simp add: p t)
qed

section \<open>Facts about the engine\<close>

subsection \<open>The flag and the number of cycles in flight\<close>

lemma cycle_run_clears: "\<not> isLoading (cycle_run ev h s)"
  by (simp add: cycle_run_def Let_def)

lemma step_inv:
  assumes "step ev e (s, n) = (s', n')" and "n \<le> 1" and "isLoading s \<longleftrightarrow> n = 1"
  shows "n' \<le> 1 \<and> (isLoading s' \<longleftrightarrow> n' = 1)"
  using assms
  by (cases e) (auto simp: cycle_enter_def say_def cycle_run_clears split: if_splits)

lemma run_inv:
  "run ev es (s, n) = (s', n') \<Longrightarrow> n \<le> 1 \<Longrightarrow> (isLoading s \<longleftrightarrow> n = 1)
     \<Longrightarrow> n' \<le> 1 \<and> (isLoading s' \<longleftrightarrow> n' = 1)"
proof (induction es arbitrary: s n)
  case Nil
  then show ?case by simp
next
  case (Cons e es)
  obtain s1 n1 where st: "step ev e (s, n) = (s1, n1)" by (cases "step ev e (s, n)")
  from step_inv [OF st Cons.prems(2) Cons.prems(3)]
  have "n1 \<le> 1" and "isLoading s1 \<longleftrightarrow> n1 = 1" by simp_all
  moreover from Cons.prems(1) st have "run ev es (s1, n1) = (s', n')" by simp
  ultimately show ?case using Cons.IH by blast
qed

subsection \<open>What a cycle leaves alone\<close>

lemma save_frame:
  "anchor (saveLastUpdateTimestamp d s) = anchor s
   \<and> timestampFile (saveLastUpdateTimestamp d s) = timestampFile s
   \<and> scriptsCache (saveLastUpdateTimestamp d s) = scriptsCache s
   \<and> isLoading (saveLastUpdateTimestamp d s) = isLoading s
   \<and> disk (saveLastUpdateTimestamp d s) = snd (writeFile (disk s) (timestampFile s) (getTime_toString d))"
  by (simp add: saveLastUpdateTimestamp_def say_def split: prod.splits option.splits sum.splits)

lemma try_frame:
  "loadOrUpdateScript_try ev h r p key s = (res, s1) \<Longrightarrow>
     anchor s1 = anchor s \<and> timestampFile s1 = timestampFile s \<and> isLoading s1 = isLoading s
     \<and> scriptDir s1 = scriptDir s"
  by (auto simp: loadOrUpdateScript_try_def writeScriptFile_def require_def say_def Let_def
      split: prod.splits option.splits sum.splits jsvalue.splits if_splits)

lemma loadOrUpdateScript_frame:
  "anchor (loadOrUpdateScript ev h r s) = anchor s
   \<and> timestampFile (loadOrUpdateScript ev h r s) = timestampFile s
   \<and> isLoading (loadOrUpdateScript ev h r s) = isLoading s
   \<and> scriptDir (loadOrUpdateScript ev h r s) = scriptDir s"
  by (auto simp: loadOrUpdateScript_def Let_def say_def split: prod.splits option.splits
      dest: try_frame)

lemma removeScript_frame:
  "removeScript h r s = (res, s1) \<Longrightarrow>
     anchor s1 = anchor s \<and> timestampFile s1 = timestampFile s \<and> isLoading s1 = isLoading s
     \<and> scriptDir s1 = scriptDir s
     \<and> denied (disk s1) = denied (disk s)
     \<and> (nodes (disk s1) q = Some Dir \<longleftrightarrow> nodes (disk s) q = Some Dir)"
  by (auto simp: removeScript_def removeScriptFile_def access_def unlink_def denied_def say_def
      Let_def split: prod.splits option.splits node.splits if_splits)

lemma processScriptUpdate_frame:
  assumes "processScriptUpdate ev h r s = (res, s1)"
  shows "anchor s1 = anchor s \<and> timestampFile s1 = timestampFile s \<and> isLoading s1 = isLoading s
     \<and> scriptDir s1 = scriptDir s
     \<and> denied (disk s1) = denied (disk s)
     \<and> (nodes (disk s1) q = Some Dir \<longleftrightarrow> nodes (disk s) q = Some Dir)"
proof (cases "isActiveScript h r")
  case True
  with assms have "s1 = loadOrUpdateScript ev h r s" by (simp add: processScriptUpdate_def)
  then show ?thesis
    by (simp add: loadOrUpdateScript_frame loadOrUpdateScript_disk writeFile_denied
        writeFile_keeps_Dir)
next
  case False
  show ?thesis
  proof (cases "isObsoletedScript h r")
    case True
    with False assms have "removeScript h r s = (res, s1)" by (simp add: processScriptUpdate_def)
    then show ?thesis by (rule removeScript_frame)
  next
    case no: False
    with False assms show ?thesis by (simp add: processScriptUpdate_def)
  qed
qed

lemma processBatch_frame:
  "processBatch ev h l s = (res, s1) \<Longrightarrow>
     anchor s1 = anchor s \<and> timestampFile s1 = timestampFile s \<and> isLoading s1 = isLoading s
     \<and> scriptDir s1 = scriptDir s
     \<and> denied (disk s1) = denied (disk s)
     \<and> (nodes (disk s1) q = Some Dir \<longleftrightarrow> nodes (disk s) q = Some Dir)"
proof (induction l arbitrary: s)
  case Nil
  then show ?case by simp
next
  case (Cons item rest)
  obtain r0 s0 where step: "processScriptUpdate ev h item s = (r0, s0)"
    by (cases "processScriptUpdate ev h item s")
  note f0 = processScriptUpdate_frame [OF step, of q]
  show ?case
  proof (cases r0)
    case None
    with Cons.prems step have "processBatch ev h rest s0 = (res, s1)" by simp
    from Cons.IH [OF this] f0 show ?thesis by simp
  next
    case (Some err)
    with Cons.prems step have "s1 = s0" by simp
    with f0 show ?thesis by simp
  qed
qed

lemma try_cycle_anchor:
  "loadLatestScripts_try ev h s = (res, s1) \<Longrightarrow>
     anchor s1 = anchor s
     \<or> (\<exists>l. getUpdatedScripts h (anchor s) = Inr l \<and> l \<noteq> [] \<and> anchor s1 = getNextAnchor h l)"
  by (auto simp: loadLatestScripts_try_def save_frame Let_def
      split: sum.splits prod.splits option.splits if_splits dest: processBatch_frame)

lemma cycle_anchor:
  "anchor (loadLatestScripts ev h s) = anchor s
   \<or> (\<exists>l. getUpdatedScripts h (anchor s) = Inr l \<and> l \<noteq> []
          \<and> anchor (loadLatestScripts ev h s) = getNextAnchor h l)"
proof (cases "isLoading s")
  case True
  then show ?thesis by (simp add: loadLatestScripts_def cycle_enter_def say_def)
next
  case False
  obtain res s1 where t: "loadLatestScripts_try ev h (s\<lparr>isLoading := True\<rparr>) = (res, s1)"
    by (cases "loadLatestScripts_try ev h (s\<lparr>isLoading := True\<rparr>)")
  have "anchor (loadLatestScripts ev h s) = anchor s1"
    using False t by (simp add: loadLatestScripts_def cycle_enter_def cycle_run_def say_def
        split: option.splits)
  with try_cycle_anchor [OF t] show ?thesis by simp
qed

lemma date_le_trans: "date_le a b \<Longrightarrow> date_le b c \<Longrightarrow> date_le a c"
  by (auto simp: date_le_def split: option.splits)

lemma anchor_le_trans: "anchor_le a b \<Longrightarrow> anchor_le b c \<Longrightarrow> anchor_le a c"
  by (auto simp: anchor_le_def dest: date_le_trans)

lemma cycle_monotone:
  assumes "anchor_contract ev (h # hs) s"
  shows "anchor_le (anchor s) (anchor (loadLatestScripts ev h s))"
  using cycle_anchor [of ev h s] assms by (auto simp: anchor_le_def)

lemma run_cycles_monotone:
  "anchor_contract ev hs s \<Longrightarrow> anchor_le (anchor s) (anchor (run_cycles ev hs s))"
proof (induction hs arbitrary: s)
  case Nil
  then show ?case by (simp add: anchor_le_def)
next
  case (Cons h hs)
  from Cons.prems have step: "anchor_le (anchor s) (anchor (loadLatestScripts ev h s))"
    by (rule cycle_monotone)
  from Cons.prems have "anchor_contract ev hs (loadLatestScripts ev h s)" by simp
  from Cons.IH [OF this] step show ?case by (auto intro: anchor_le_trans)
qed

lemma cycle_completed:
  assumes idle: "\<not> isLoading s"
    and fetched: "getUpdatedScripts h (anchor s) = Inr l" and nonempty: "l \<noteq> []"
    and finished: "processBatch ev h l (s\<lparr>isLoading := True\<rparr>) = (None, s1)"
  shows "loadLatestScripts ev h s =
           (saveLastUpdateTimestamp (getNextAnchor h l) (s1\<lparr>anchor := getNextAnchor h l\<rparr>))
             \<lparr>isLoading := False\<rparr>"
  using assms
  by (simp add: loadLatestScripts_def cycle_enter_def cycle_run_def loadLatestScripts_try_def Let_def)

subsection \<open>What the anchor store computes\<close>

lemma load_result:
  "fst (loadLastUpdateTimestamp clean s) =
     (if clean \<or> nodes (disk s) (timestampFile s) = None then new_Date 0
      else case readFileSync (disk s) (timestampFile s) of
             Inl err \<Rightarrow> new_Date 0
           | Inr raw \<Rightarrow>
               (case parseInt (trim raw) of
                  None \<Rightarrow> new_Date 0
                | Some n \<Rightarrow> if 0 < n \<and> n \<le> maxTime then Some n else new_Date 0))"
  by (auto simp: loadLastUpdateTimestamp_def loadLastUpdateTimestamp_try_def existsSync_def
      readFileSync_def denied_def toISOString_def new_Date_def maxTime_def say_def Let_def
      split: sum.splits option.splits)

section \<open>The claims, continued\<close>

text \<open>
  Claim C3. A trigger that finds the flag set returns at once: \<^verbatim>\<open>loadLatestScripts\<close> and
  \<^verbatim>\<open>checkForUpdates\<close> only log, their result is a state and never an error, and the number
  of cycles in flight stays as it is. The \<^verbatim>\<open>finally\<close> clears the flag however the cycle
  ends, so the trigger after a finished cycle passes the guard. Over any sequence of timer
  ticks, manual triggers and completions that starts idle, at most one cycle is in flight,
  and the flag is set exactly while one is.
\<close>

theorem C3_single_cycle_in_flight:
  "(isLoading s \<longrightarrow>
      loadLatestScripts ev h s = say DEBUG LoadingInProgress s
      \<and> checkForUpdates ev h s = say DEBUG LoadingInProgress (say LOG ManualCheck s)
      \<and> step ev TimerTick (s, n) = (say DEBUG LoadingInProgress s, n)
      \<and> step ev ManualTrigger (s, n) = (say DEBUG LoadingInProgress (say LOG ManualCheck s), n))
   \<and> \<not> isLoading (cycle_run ev h s)
   \<and> fst (cycle_enter (cycle_run ev h s))
   \<and> (\<not> isLoading s \<longrightarrow>
        \<not> isLoading (loadLatestScripts ev h s) \<and> \<not> isLoading (checkForUpdates ev h s))
   \<and> (\<not> isLoading s \<longrightarrow>
        snd (run ev es (s, 0)) \<le> 1
        \<and> (isLoading (fst (run ev es (s, 0))) \<longleftrightarrow> snd (run ev es (s, 0)) = 1))"
proof -
  have a: "isLoading s \<longrightarrow>
      loadLatestScripts ev h s = say DEBUG LoadingInProgress s
      \<and> checkForUpdates ev h s = say DEBUG LoadingInProgress (say LOG ManualCheck s)
      \<and> step ev TimerTick (s, n) = (say DEBUG LoadingInProgress s, n)
      \<and> step ev ManualTrigger (s, n) = (say DEBUG LoadingInProgress (say LOG ManualCheck s), n)"
    by (simp add: loadLatestScripts_def checkForUpdates_def cycle_enter_def say_def)
  have b: "fst (cycle_enter (cycle_run ev h s))"
    by (simp add: cycle_enter_def cycle_run_clears)
  have c: "\<not> isLoading s \<longrightarrow>
        \<not> isLoading (loadLatestScripts ev h s) \<and> \<not> isLoading (checkForUpdates ev h s)"
    by (simp add: loadLatestScripts_def checkForUpdates_def cycle_enter_def say_def cycle_run_clears)
  have d: "\<not> isLoading s \<longrightarrow>
        snd (run ev es (s, 0)) \<le> 1
        \<and> (isLoading (fst (run ev es (s, 0))) \<longleftrightarrow> snd (run ev es (s, 0)) = 1)"
  proof
    assume idle: "\<not> isLoading s"
    obtain s' n' where r: "run ev es (s, 0) = (s', n')" by (cases "run ev es (s, 0)")
    from run_inv [OF r] idle show "snd (run ev es (s, 0)) \<le> 1
        \<and> (isLoading (fst (run ev es (s, 0))) \<longleftrightarrow> snd (run ev es (s, 0)) = 1)"
      by (simp add: r)
  qed
  from a b c d cycle_run_clears show ?thesis by blast
qed

text \<open>
  A manual check during a cycle, and three triggers in a row of which only the first
  starts a cycle.
\<close>

theorem C3_single_cycle_in_flight_witness:
  "isLoading (fresh\<lparr>isLoading := True\<rparr>)
   \<and> checkForUpdates engine (MyScriptLoader [a_v1]) (fresh\<lparr>isLoading := True\<rparr>)
        = fresh\<lparr>isLoading := True, logged := [(LOG, ManualCheck), (DEBUG, LoadingInProgress)]\<rparr>
   \<and> \<not> isLoading fresh
   \<and> \<not> isLoading (checkForUpdates engine (MyScriptLoader [a_v1]) fresh)
   \<and> run engine [TimerTick, ManualTrigger, TimerTick] (fresh, 0)
        = (fresh\<lparr>isLoading := True,
                  logged := [(LOG, ManualCheck), (DEBUG, LoadingInProgress), (DEBUG, LoadingInProgress)]\<rparr>, 1)
   \<and> snd (run engine [TimerTick, ManualTrigger, Settle (MyScriptLoader [a_v1]), ManualTrigger] (fresh, 0)) \<le> 1"
proof -
  have busy: "isLoading (fresh\<lparr>isLoading := True\<rparr>)" and idle: "\<not> isLoading fresh"
    by (simp_all add: fresh_def)
  have r: "run engine [TimerTick, ManualTrigger, TimerTick] (fresh, 0)
        = (fresh\<lparr>isLoading := True,
                  logged := [(LOG, ManualCheck), (DEBUG, LoadingInProgress), (DEBUG, LoadingInProgress)]\<rparr>, 1)"
    by (simp add: cycle_enter_def say_def fresh_def)
  from C3_single_cycle_in_flight [of "fresh\<lparr>isLoading := True\<rparr>" engine "MyScriptLoader [a_v1]" 1 "[]"]
       C3_single_cycle_in_flight [of fresh engine "MyScriptLoader [a_v1]" 0
             "[TimerTick, ManualTrigger, Settle (MyScriptLoader [a_v1]), ManualTrigger]"]
       busy idle r
  show ?thesis by (simp add: say_def fresh_def)
qed

text \<open>
  Claim C6, as the code has it. \<^verbatim>\<open>loadLastUpdateTimestamp\<close> answers the epoch when it is
  asked to reset, when there is no timestamp file, when the file cannot be read, when the
  trimmed content does not begin with an integer, and when it is a decimal integer string,
  with or without a minus sign, whose value is not positive or is beyond 8.64e15, the
  largest time value a \<^verbatim>\<open>Date\<close> can hold. When the trimmed content is a decimal integer
  string with a value from 1 to 8.64e15, it answers the date with that time value. Its
  result is always a valid date at or after the epoch; every exception is caught (line 50),
  so the function has no error result. Nothing is said here of a content that begins with
  an integer and goes on with other characters.
\<close>

theorem C6_load_anchor:
  "(clean \<longrightarrow> fst (loadLastUpdateTimestamp clean s) = new_Date 0)
   \<and> (nodes (disk s) (timestampFile s) = None \<longrightarrow>
        fst (loadLastUpdateTimestamp clean s) = new_Date 0)
   \<and> (readFileSync (disk s) (timestampFile s) = Inl err \<longrightarrow>
        fst (loadLastUpdateTimestamp clean s) = new_Date 0)
   \<and> (readFileSync (disk s) (timestampFile s) = Inr raw \<and> \<not> begins_with_integer (trim raw) \<longrightarrow>
        fst (loadLastUpdateTimestamp clean s) = new_Date 0)
   \<and> (readFileSync (disk s) (timestampFile s) = Inr raw \<and> trim raw = 45 # ds
        \<and> decimal_string ds \<longrightarrow>
        fst (loadLastUpdateTimestamp clean s) = new_Date 0)
   \<and> (readFileSync (disk s) (timestampFile s) = Inr raw \<and> decimal_string (trim raw)
        \<and> (decimal_value (trim raw) \<le> 0 \<or> maxTime < decimal_value (trim raw)) \<longrightarrow>
        fst (loadLastUpdateTimestamp clean s) = new_Date 0)
   \<and> (\<not> clean \<and> readFileSync (disk s) (timestampFile s) = Inr raw \<and> decimal_string (trim raw)
        \<and> 0 < decimal_value (trim raw) \<and> decimal_value (trim raw) \<le> maxTime \<longrightarrow>
        fst (loadLastUpdateTimestamp clean s) = new_Date (decimal_value (trim raw))
        \<and> new_Date (decimal_value (trim raw)) = Some (decimal_value (trim raw)))
   \<and> (\<exists>t. fst (loadLastUpdateTimestamp clean s) = Some t \<and> 0 \<le> t \<and> t \<le> maxTime)"
proof -
  let ?L = "fst (loadLastUpdateTimestamp clean s)"
  let ?rd = "readFileSync (disk s) (timestampFile s)"
  have reset: "?L = new_Date 0" if "clean"
    using that by (simp add: load_result)
  have absent: "?L = new_Date 0" if "nodes (disk s) (timestampFile s) = None"
    using that by (simp add: load_result)
  have unreadable: "?L = new_Date 0" if "?rd = Inl err"
    using that by (simp add: load_result)
  have no_integer: "?L = new_Date 0" if "?rd = Inr raw \<and> \<not> begins_with_integer (trim raw)"
    using that by (simp add: load_result parseInt_trim_no_integer)
  have negative: "?L = new_Date 0" if "?rd = Inr raw \<and> trim raw = 45 # ds \<and> decimal_string ds"
  proof -
    have "0 \<le> decimal_value ds" by (simp add: decimal_value_def)
    with that show ?thesis by (simp add: load_result parseInt_minus_decimal)
  qed
  have outside: "?L = new_Date 0"
    if "?rd = Inr raw \<and> decimal_string (trim raw)
        \<and> (decimal_value (trim raw) \<le> 0 \<or> maxTime < decimal_value (trim raw))"
    using that by (auto simp: load_result parseInt_decimal)
  have inside: "?L = new_Date (decimal_value (trim raw))
        \<and> new_Date (decimal_value (trim raw)) = Some (decimal_value (trim raw))"
    if "\<not> clean \<and> ?rd = Inr raw \<and> decimal_string (trim raw)
        \<and> 0 < decimal_value (trim raw) \<and> decimal_value (trim raw) \<le> maxTime"
  proof -
    from that have "nodes (disk s) (timestampFile s) \<noteq> None"
      by (auto simp: readFileSync_def split: if_splits option.splits)
    with that show ?thesis
      by (simp add: load_result parseInt_decimal new_Date_def maxTime_def)
  qed
  have valid: "\<exists>t. ?L = Some t \<and> 0 \<le> t \<and> t \<le> maxTime"
    by (simp add: load_result new_Date_def maxTime_def split: sum.splits option.splits)
  from reset absent unreadable no_integer negative outside inside valid
  show ?thesis by blast
qed

text \<open>
  One run for each case: a reset over a good file, no file, a directory in the file's place,
  the content \<^verbatim>\<open>abc\<close>, a negative number between blanks, a number beyond the range of
  dates, and a timestamp of the year 2023 between a byte order mark and a paragraph
  separator.
\<close>

theorem C6_load_anchor_witness:
  "fst (loadLastUpdateTimestamp True with_a) = Some 0
   \<and> nodes (disk fresh) (timestampFile fresh) = None
   \<and> fst (loadLastUpdateTimestamp False fresh) = Some 0
   \<and> readFileSync (disk (on_disk ''/srv/.last_update_timestamp'' Dir fresh)) ''/srv/.last_update_timestamp''
        = Inl (SysError ''EISDIR'' ''/srv/.last_update_timestamp'')
   \<and> fst (loadLastUpdateTimestamp False (on_disk ''/srv/.last_update_timestamp'' Dir fresh)) = Some 0
   \<and> \<not> begins_with_integer (trim (units ''abc''))
   \<and> fst (loadLastUpdateTimestamp False (stamped ''abc'')) = Some 0
   \<and> trim (units '' -7 '') = 45 # units ''7'' \<and> decimal_string (units ''7'')
   \<and> fst (loadLastUpdateTimestamp False (stamped '' -7 '')) = Some 0
   \<and> decimal_string (trim (units ''8640000000000001''))
   \<and> maxTime < decimal_value (trim (units ''8640000000000001''))
   \<and> fst (loadLastUpdateTimestamp False (stamped ''8640000000000001'')) = Some 0
   \<and> trim (65279 # units ''1700000000000'' @ [8233]) = units ''1700000000000''
   \<and> decimal_string (units ''1700000000000'')
   \<and> decimal_value (units ''1700000000000'') = 1700000000000
   \<and> fst (loadLastUpdateTimestamp False marked_stamp) = Some 1700000000000"
proof -
  let ?tf = "''/srv/.last_update_timestamp''"
  let ?big = "units ''8640000000000001''"
  let ?marked = "65279 # units ''1700000000000'' @ [8233]"
  have tf: "timestampFile with_a = ?tf" "timestampFile fresh = ?tf"
      "timestampFile (on_disk ?tf Dir fresh) = ?tf" "\<And>text. timestampFile (stamped text) = ?tf"
      "timestampFile marked_stamp = ?tf"
    by (simp_all add: with_a_eq fixture_defs)
  have absent: "nodes (disk fresh) (timestampFile fresh) = None"
    by (simp add: fixture_defs)
  have isdir: "readFileSync (disk (on_disk ?tf Dir fresh)) ?tf = Inl (SysError ''EISDIR'' ?tf)"
    by (simp add: readFileSync_def denied_def fixture_defs)
  have rd: "\<And>text. readFileSync (disk (stamped text)) ?tf = Inr (units text)"
    and rdm: "readFileSync (disk marked_stamp) ?tf = Inr ?marked"
    by (simp_all add: readFileSync_def denied_def fixture_defs)
  have p1: "\<not> begins_with_integer (trim (units ''abc''))"
    and p2: "trim (units '' -7 '') = 45 # units ''7''" "decimal_string (units ''7'')"
    and p3: "trim ?big = ?big" "decimal_string ?big" "decimal_value ?big = 8640000000000001"
    and p4: "trim ?marked = units ''1700000000000''" "decimal_string (units ''1700000000000'')"
      "decimal_value (units ''1700000000000'') = 1700000000000"
    by (simp_all add: parse_defs begins_with_integer_def decimal_string_def dec_digit_def
        decimal_value_def)
  have e: "new_Date 0 = Some 0" and m: "(1700000000000::int) \<le> maxTime"
    and over: "maxTime < (8640000000000001::int)"
    by (simp_all add: new_Date_def maxTime_def)
  from C6_load_anchor [of True with_a]
  have c1: "fst (loadLastUpdateTimestamp True with_a) = Some 0" by (simp add: e)
  from C6_load_anchor [of False fresh] absent
  have c2: "fst (loadLastUpdateTimestamp False fresh) = Some 0" by (simp add: e)
  from C6_load_anchor [of False "on_disk ?tf Dir fresh" "SysError ''EISDIR'' ?tf"] isdir
  have c3: "fst (loadLastUpdateTimestamp False (on_disk ?tf Dir fresh)) = Some 0"
    by (simp add: e tf)
  from C6_load_anchor [of False "stamped ''abc''" _ "units ''abc''"] rd p1
  have c4: "fst (loadLastUpdateTimestamp False (stamped ''abc'')) = Some 0"
    by (simp add: e tf)
  from C6_load_anchor [of False "stamped '' -7 ''" _ "units '' -7 ''" "units ''7''"] rd p2
  have c5: "fst (loadLastUpdateTimestamp False (stamped '' -7 '')) = Some 0"
    by (simp add: e tf)
  from C6_load_anchor [of False "stamped ''8640000000000001''" _ ?big] rd p3 over
  have c6: "fst (loadLastUpdateTimestamp False (stamped ''8640000000000001'')) = Some 0"
    by (simp add: e tf)
  from C6_load_anchor [of False marked_stamp _ ?marked] rdm p4 m
  have c7: "fst (loadLastUpdateTimestamp False marked_stamp) = Some 1700000000000"
    by (simp add: tf new_Date_def)
  from c1 c2 c3 c4 c5 c6 c7 absent isdir p1 p2 p3 p4 over show ?thesis by simp
qed

text \<open>
  The claim as written fails in two ways. A content that is numeric and positive should
  give back the date parsed from it: the first file holds 8640000000000001, a decimal
  integer string with a positive value, but \<^verbatim>\<open>new Date\<close> of it is the invalid date,
  \<^verbatim>\<open>toISOString\<close> throws inside the log line 44, and the function falls through to the
  epoch. A content that is not numeric should give the epoch: the second file holds
  \<^verbatim>\<open>12abc\<close>, which is no decimal integer string, and \<^verbatim>\<open>parseInt\<close> reads 12 from it, so
  the function answers the date 12 and logs no invalid format.
\<close>

theorem C6_load_anchor_counterexample:
  "readFileSync (disk (stamped ''8640000000000001'')) (timestampFile (stamped ''8640000000000001''))
     = Inr (units ''8640000000000001'')
   \<and> decimal_string (trim (units ''8640000000000001''))
   \<and> decimal_value (trim (units ''8640000000000001'')) = 8640000000000001
   \<and> new_Date 8640000000000001 = None
   \<and> fst (loadLastUpdateTimestamp False (stamped ''8640000000000001'')) = Some 0
   \<and> readFileSync (disk (stamped ''12abc'')) (timestampFile (stamped ''12abc''))
        = Inr (units ''12abc'')
   \<and> trim (units ''12abc'') = units ''12abc''
   \<and> \<not> decimal_string (units ''12abc'')
   \<and> new_Date 0 = Some 0
   \<and> fst (loadLastUpdateTimestamp False (stamped ''12abc'')) = Some 12"
proof -
  let ?big = "units ''8640000000000001''"
  have r: "\<And>text. readFileSync (disk (stamped text)) (timestampFile (stamped text)) = Inr (units text)"
    and x: "\<And>text. nodes (disk (stamped text)) (timestampFile (stamped text)) \<noteq> None"
    by (simp_all add: readFileSync_def denied_def fixture_defs)
  have big: "trim ?big = ?big" "decimal_string ?big" "decimal_value ?big = 8640000000000001"
    "parseInt ?big = Some 8640000000000001"
    and junk: "trim (units ''12abc'') = units ''12abc''" "\<not> decimal_string (units ''12abc'')"
    "parseInt (units ''12abc'') = Some 12"
    by (simp_all add: parse_defs decimal_string_def dec_digit_def decimal_value_def Let_def)
  have n: "new_Date 8640000000000001 = None" "new_Date 0 = Some 0"
    by (simp_all add: new_Date_def maxTime_def)
  have l1: "fst (loadLastUpdateTimestamp False (stamped ''8640000000000001'')) = Some 0"
    by (simp add: load_result x r big n maxTime_def)
  have l2: "fst (loadLastUpdateTimestamp False (stamped ''12abc'')) = Some 12"
    by (simp add: load_result x r junk n maxTime_def)
  from r big junk n l1 l2 show ?thesis by simp
qed

text \<open>
  Claim C9. Saving a valid date at or after the epoch and loading it back without a reset
  gives the same date. The file is the one the save wrote: the system accepts the write
  and the path is not a directory.
\<close>

theorem C9_save_load_roundtrip:
  assumes "0 \<le> t" and "t \<le> maxTime"
    and "timestampFile s \<notin> denied (disk s)"
    and "nodes (disk s) (timestampFile s) \<noteq> Some Dir"
  shows "fst (loadLastUpdateTimestamp False (saveLastUpdateTimestamp (Some t) s)) = Some t"
proof -
  let ?s1 = "saveLastUpdateTimestamp (Some t) s"
  have ok: "fst (writeFile (disk s) (timestampFile s) (number_toString t)) = None"
    using assms(3,4) by (simp add: writeFile_ok_iff)
  have tf: "timestampFile ?s1 = timestampFile s"
    by (simp add: saveLastUpdateTimestamp_def say_def split: prod.splits option.splits sum.splits)
  have dk: "disk ?s1 = snd (writeFile (disk s) (timestampFile s) (number_toString t))"
    by (simp add: saveLastUpdateTimestamp_def say_def getTime_toString_def
        split: prod.splits option.splits sum.splits)
  have wrote: "nodes (disk ?s1) (timestampFile s) = Some (File (number_toString t))"
    by (simp add: dk writeFile_ok_nodes [OF ok])
  have den: "timestampFile s \<notin> denied (disk ?s1)"
    using assms(3) by (simp add: dk writeFile_denied)
  have rd: "readFileSync (disk ?s1) (timestampFile s) = Inr (number_toString t)"
    using wrote den by (simp add: readFileSync_def)
  show ?thesis
    using assms(1,2) wrote
    by (auto simp: load_result tf rd parseInt_trim_number_toString new_Date_def maxTime_def)
qed

text \<open>The loader after its first cycle saves and reloads a timestamp of 2023.\<close>

theorem C9_save_load_roundtrip_witness:
  "(0::int) \<le> 1700000000000 \<and> 1700000000000 \<le> maxTime
   \<and> timestampFile with_a \<notin> denied (disk with_a)
   \<and> nodes (disk with_a) (timestampFile with_a) \<noteq> Some Dir
   \<and> fst (loadLastUpdateTimestamp False (saveLastUpdateTimestamp (Some 1700000000000) with_a))
       = Some 1700000000000"
proof -
  have lo: "(0::int) \<le> 1700000000000" and hi: "1700000000000 \<le> maxTime"
    by (simp_all add: maxTime_def)
  have allowed: "timestampFile with_a \<notin> denied (disk with_a)"
    and nodir: "nodes (disk with_a) (timestampFile with_a) \<noteq> Some Dir"
    by (simp_all add: with_a_eq denied_def fixture_defs)
  from C9_save_load_roundtrip [OF lo hi allowed nodir] lo hi allowed nodir
  show ?thesis by simp
qed

text \<open>
  Claim C4, as the code has it. Over any sequence of cycles in which each next anchor
  computed is at or after the anchor its batch was fetched with, the anchor in memory never
  decreases. After a cycle that ran on a non-empty batch and in which no record made the
  loop throw, the anchor in memory is \<^verbatim>\<open>getNextAnchor\<close> of the batch; and the timestamp
  file holds that value when the system accepts the write. (A refused write is caught and
  logged at line 66, and the anchor in memory has advanced all the same.)
\<close>

theorem C4_anchor_advances:
  "(anchor_contract ev hs s \<longrightarrow> anchor_le (anchor s) (anchor (run_cycles ev hs s)))
   \<and> (\<not> isLoading s \<and> getUpdatedScripts h (anchor s) = Inr l \<and> l \<noteq> []
        \<and> fst (processBatch ev h l (s\<lparr>isLoading := True\<rparr>)) = None \<longrightarrow>
        anchor (loadLatestScripts ev h s) = getNextAnchor h l
        \<and> (timestampFile s \<notin> denied (disk s) \<and> nodes (disk s) (timestampFile s) \<noteq> Some Dir \<longrightarrow>
             nodes (disk (loadLatestScripts ev h s)) (timestampFile s)
               = Some (File (getTime_toString (getNextAnchor h l)))))"
proof -
  have second: "anchor (loadLatestScripts ev h s) = getNextAnchor h l
        \<and> (timestampFile s \<notin> denied (disk s) \<and> nodes (disk s) (timestampFile s) \<noteq> Some Dir \<longrightarrow>
             nodes (disk (loadLatestScripts ev h s)) (timestampFile s)
               = Some (File (getTime_toString (getNextAnchor h l))))"
    if idle: "\<not> isLoading s" and fetched: "getUpdatedScripts h (anchor s) = Inr l"
      and nonempty: "l \<noteq> []"
      and batch: "fst (processBatch ev h l (s\<lparr>isLoading := True\<rparr>)) = None"
  proof -
    obtain s1 where finished: "processBatch ev h l (s\<lparr>isLoading := True\<rparr>) = (None, s1)"
      using batch by (cases "processBatch ev h l (s\<lparr>isLoading := True\<rparr>)") simp
    note result = cycle_completed [OF idle fetched nonempty finished]
    note f = processBatch_frame [OF finished, of "timestampFile s"]
    have a: "anchor (loadLatestScripts ev h s) = getNextAnchor h l"
      by (simp add: result save_frame)
    have b: "nodes (disk (loadLatestScripts ev h s)) (timestampFile s)
               = Some (File (getTime_toString (getNextAnchor h l)))"
      if ok: "timestampFile s \<notin> denied (disk s)" "nodes (disk s) (timestampFile s) \<noteq> Some Dir"
    proof -
      have "fst (writeFile (disk s1) (timestampFile s) (getTime_toString (getNextAnchor h l))) = None"
        using ok f by (simp add: writeFile_ok_iff)
      from writeFile_ok_nodes [OF this] f show ?thesis
        by (simp add: result save_frame)
    qed
    from a b show ?thesis by blast
  qed
  from run_cycles_monotone [of ev hs s] second show ?thesis by blast
qed

text \<open>The second cycle of the README's subclass, which finds script \<^verbatim>\<open>b\<close>, computed.\<close>

lemma second_cycle:
  "loadLatestScripts engine (MyScriptLoader [a_v1, b_v2]) with_a =
     with_a\<lparr>scriptsCache := [''a'' \<mapsto> \<lparr>metaData = a_v1, inst = ''V1''\<rparr>,
                              ''b'' \<mapsto> \<lparr>metaData = b_v2, inst = ''V2''\<rparr>],
       anchor := Some 14,
       disk := \<lparr>nodes = [''/srv'' \<mapsto> Dir, ''/srv/plugins'' \<mapsto> Dir,
                  ''/srv/plugins/a.js'' \<mapsto> File (units ''module.exports = class V1 {}''),
                  ''/srv/.last_update_timestamp'' \<mapsto> File (units ''5''),
                  ''/srv/plugins/b.js'' \<mapsto> File (units ''module.exports = class V2 {}''),
                  ''/srv/.last_update_timestamp'' \<mapsto> File (units ''14'')],
                refused = {}, unsearchable = {},
                journal = [WriteFile ''/srv/plugins/a.js'' (units ''module.exports = class V1 {}''),
                           WriteFile ''/srv/.last_update_timestamp'' (units ''5''),
                           WriteFile ''/srv/plugins/b.js'' (units ''module.exports = class V2 {}''),
                           WriteFile ''/srv/.last_update_timestamp'' (units ''14'')]\<rparr>,
       requireCache := [''/srv/plugins/a.js'' \<mapsto>
                          \<lparr>exports_value = Function (Inr ''V1''), default_prop = Nullish\<rparr>,
                        ''/srv/plugins/b.js'' \<mapsto>
                          \<lparr>exports_value = Function (Inr ''V2''), default_prop = Nullish\<rparr>],
       logged := [(INFO, ScriptFileWritten True ''/srv/plugins/a.js''), (DEBUG, TimestampSaved 5),
                  (INFO, ScriptFileWritten True ''/srv/plugins/b.js''), (DEBUG, TimestampSaved 14)]\<rparr>"
  by (simp add: with_a_eq model_defs fixture_defs digits_14)

text \<open>Two cycles from the empty directory: the anchor goes from 0 to 5 to 14.\<close>

theorem C4_anchor_advances_witness:
  "anchor_contract engine [MyScriptLoader [a_v1], MyScriptLoader [a_v1, b_v2]] fresh
   \<and> anchor fresh = Some 0
   \<and> anchor (run_cycles engine [MyScriptLoader [a_v1], MyScriptLoader [a_v1, b_v2]] fresh) = Some 14
   \<and> anchor_le (anchor fresh)
        (anchor (run_cycles engine [MyScriptLoader [a_v1], MyScriptLoader [a_v1, b_v2]] fresh))
   \<and> \<not> isLoading with_a
   \<and> getUpdatedScripts (MyScriptLoader [a_v1, b_v2]) (anchor with_a) = Inr [b_v2]
   \<and> fst (processBatch engine (MyScriptLoader [a_v1, b_v2]) [b_v2] (with_a\<lparr>isLoading := True\<rparr>)) = None
   \<and> timestampFile with_a \<notin> denied (disk with_a)
   \<and> nodes (disk with_a) (timestampFile with_a) \<noteq> Some Dir
   \<and> getNextAnchor (MyScriptLoader [a_v1, b_v2]) [b_v2] = Some 14
   \<and> anchor (loadLatestScripts engine (MyScriptLoader [a_v1, b_v2]) with_a) = Some 14
   \<and> nodes (disk (loadLatestScripts engine (MyScriptLoader [a_v1, b_v2]) with_a)) (timestampFile with_a)
        = Some (File (units ''14''))"
proof -
  let ?h1 = "MyScriptLoader [a_v1]" and ?h2 = "MyScriptLoader [a_v1, b_v2]"
  have first: "loadLatestScripts engine ?h1 fresh = with_a" by (simp add: with_a_def)
  have a0: "anchor fresh = Some 0" and a1: "anchor with_a = Some 5"
    by (simp_all add: with_a_eq fresh_def new_Date_def maxTime_def)
  have b1: "getUpdatedScripts ?h1 (Some 0) = Inr [a_v1]"
    and b2: "getUpdatedScripts ?h2 (Some 5) = Inr [b_v2]"
    and n1: "getNextAnchor ?h1 [a_v1] = Some 5"
    and n2: "getNextAnchor ?h2 [b_v2] = Some 14"
    by (simp_all add: fixture_defs new_Date_def maxTime_def)
  have kept: "anchor_contract engine [?h1, ?h2] fresh"
    by (simp add: first a0 a1 b1 b2 n1 n2 date_le_def)
  have idle: "\<not> isLoading with_a"
    and allowed: "timestampFile with_a \<notin> denied (disk with_a)"
    and nodir: "nodes (disk with_a) (timestampFile with_a) \<noteq> Some Dir"
    by (simp_all add: with_a_eq denied_def fixture_defs)
  have batch: "fst (processBatch engine ?h2 [b_v2] (with_a\<lparr>isLoading := True\<rparr>)) = None"
    by (simp add: processScriptUpdate_def fixture_defs split: prod.splits)
  have fetched: "getUpdatedScripts ?h2 (anchor with_a) = Inr [b_v2]"
    by (simp add: a1 b2)
  have last_anchor: "anchor (run_cycles engine [?h1, ?h2] fresh) = Some 14"
    by (simp add: first second_cycle)
  have printed: "getTime_toString (Some 14) = units ''14''"
    by (simp add: getTime_toString_def number_toString_def digits_14)
  from C4_anchor_advances [of engine "[?h1, ?h2]" fresh]
       C4_anchor_advances [of engine "[]" with_a ?h2 "[b_v2]"]
       kept idle fetched batch allowed nodir a0 last_anchor n2 printed
  show ?thesis by simp
qed

text \<open>
  The claim as written fails in two ways, each with a non-empty batch and a host that keeps
  its contract. When the timestamp file cannot be written, the anchor advances to 5 in
  memory and nothing is persisted. When the artifact of a deleted script cannot be unlinked,
  the loop is left at that record and the anchor stays at 5 although \<^verbatim>\<open>getNextAnchor\<close> of
  the batch is 14.
\<close>

theorem C4_anchor_advances_counterexample:
  "getUpdatedScripts (MyScriptLoader [a_v1]) (anchor unwritable_stamp) = Inr [a_v1]
   \<and> date_le (anchor unwritable_stamp) (getNextAnchor (MyScriptLoader [a_v1]) [a_v1])
   \<and> anchor (loadLatestScripts engine (MyScriptLoader [a_v1]) unwritable_stamp) = Some 5
   \<and> nodes (disk (loadLatestScripts engine (MyScriptLoader [a_v1]) unwritable_stamp))
        ''/srv/.last_update_timestamp'' = None
   \<and> getUpdatedScripts (MyScriptLoader [a_v1, a_gone, b_v2]) (anchor undeletable_a) = Inr [a_gone, b_v2]
   \<and> date_le (anchor undeletable_a) (getNextAnchor (MyScriptLoader [a_v1, a_gone, b_v2]) [a_gone, b_v2])
   \<and> getNextAnchor (MyScriptLoader [a_v1, a_gone, b_v2]) [a_gone, b_v2] = Some 14
   \<and> anchor (loadLatestScripts engine (MyScriptLoader [a_v1, a_gone, b_v2]) undeletable_a) = Some 5
   \<and> nodes (disk (loadLatestScripts engine (MyScriptLoader [a_v1, a_gone, b_v2]) undeletable_a))
        ''/srv/.last_update_timestamp'' = Some (File (units ''5''))"
  by (simp add: with_a_eq model_defs fixture_defs digits_5)

text \<open>
  Claim C1 at a failing input. The batch is the deletion of \<^verbatim>\<open>a\<close> followed by the active
  script \<^verbatim>\<open>b\<close>, and the system refuses to unlink \<^verbatim>\<open>/srv/plugins/a.js\<close>. The rejection of
  \<^verbatim>\<open>unlink\<close> (line 240) is caught nowhere before line 116: the only file system call of
  the cycle is that unlink, \<^verbatim>\<open>b\<close> is never activated, and the anchor is neither advanced
  nor saved. On the same batch without the refusal, \<^verbatim>\<open>b\<close> is loaded and the anchor is 14.
\<close>

theorem C1_removal_failure_aborts_batch:
  "getUpdatedScripts (MyScriptLoader [a_v1, a_gone, b_v2]) (anchor undeletable_a) = Inr [a_gone, b_v2]
   \<and> isObsoletedScript (MyScriptLoader [a_v1, a_gone, b_v2]) a_gone
   \<and> isActiveScript (MyScriptLoader [a_v1, a_gone, b_v2]) b_v2
   \<and> logged (loadLatestScripts engine (MyScriptLoader [a_v1, a_gone, b_v2]) undeletable_a)
        = logged undeletable_a @ [(ERROR, LoadLatestFailed (SysError ''EACCES'' ''/srv/plugins/a.js''))]
   \<and> journal (disk (loadLatestScripts engine (MyScriptLoader [a_v1, a_gone, b_v2]) undeletable_a))
        = journal (disk undeletable_a) @ [Unlink ''/srv/plugins/a.js'']
   \<and> get (loadLatestScripts engine (MyScriptLoader [a_v1, a_gone, b_v2]) undeletable_a) ''b'' = None
   \<and> anchor (loadLatestScripts engine (MyScriptLoader [a_v1, a_gone, b_v2]) undeletable_a)
        = anchor undeletable_a
   \<and> get (loadLatestScripts engine (MyScriptLoader [a_v1, a_gone, b_v2]) with_a) ''b'' = Some ''V2''
   \<and> anchor (loadLatestScripts engine (MyScriptLoader [a_v1, a_gone, b_v2]) with_a) = Some 14"
  by (simp add: with_a_eq model_defs fixture_defs digits_14)

end
